theory Spec2Isabelle
  imports Complex_Main "HOL-Library.Word"
begin

unbundle bit_operations_syntax

section \<open>Handles and the packed handle arrays\<close>

text \<open>
  Objects (cameras, lights, models) are compared by reference in the source
  (\<open>===\<close>); a reference is a natural number and an object store maps references to
  the fields of the object. A handle is a number; the source tests handles for truthiness
  (\<open>if (this._modelArrayHandle)\<close>), so the null handle is the number 0.
\<close>

type_synonym ref = nat
type_synonym handle = nat

definition NULL_HANDLE :: handle where
  "NULL_HANDLE = 0"

text \<open>
  Modelled from the spec: the packed-array pools \<open>ModelArrayPool\<close> and
  \<open>LightArrayPool\<close> of \<open>core/memory-pools\<close> are not among the sources; only their
  callers are. Section 4.2 of the specification fixes their contract: \<open>alloc()\<close> gives a
  new array handle with zero logical length, \<open>free(handle)\<close> releases the array,
  \<open>push(handle, value)\<close> appends one entry, \<open>erase(handle, index)\<close> removes the entry
  at \<open>index\<close> and shifts the later entries down, \<open>clear(handle)\<close> resets the logical
  length to 0. Operations on the null handle, and on a handle that is not allocated, are
  no-ops; an out-of-range \<open>erase\<close> is undefined behaviour and is the value \<open>None\<close>
  here.

  A pool is the association list of its live arrays, newest first.
\<close>

type_synonym 'v pool = "(handle \<times> 'v) list"

fun pool_get :: "'v pool \<Rightarrow> handle \<Rightarrow> 'v option" where
  "pool_get [] h = None"
| "pool_get ((k, v) # p) h = (if k = h then Some v else pool_get p h)"

fun pool_put :: "handle \<Rightarrow> 'v \<Rightarrow> 'v pool \<Rightarrow> 'v pool" where
  "pool_put h v [] = []"
| "pool_put h v ((k, w) # p) = (if k = h then (k, v) # p else (k, w) # pool_put h v p)"

fun pool_top :: "'v pool \<Rightarrow> handle" where
  "pool_top [] = 0"
| "pool_top ((k, v) # p) = max k (pool_top p)"

text \<open>Modelled from the spec: \<open>alloc()\<close>; the new handle is one past the largest live one,
  hence neither null nor live.\<close>

definition pool_alloc :: "'v \<Rightarrow> 'v pool \<Rightarrow> handle \<times> 'v pool" where
  "pool_alloc v0 p = (let h = Suc (pool_top p) in (h, (h, v0) # p))"

text \<open>Modelled from the spec: \<open>free(handle)\<close>.\<close>

definition pool_free :: "handle \<Rightarrow> 'v pool \<Rightarrow> 'v pool" where
  "pool_free h p = filter (\<lambda>(k, v). k \<noteq> h) p"

text \<open>Modelled from the spec: \<open>push\<close>, \<open>erase\<close> and \<open>clear\<close> of a packed handle array.\<close>

definition array_of :: "handle list pool \<Rightarrow> handle \<Rightarrow> handle list option" where
  "array_of p h = (if h = NULL_HANDLE then None else pool_get p h)"

definition array_push :: "handle \<Rightarrow> handle \<Rightarrow> handle list pool \<Rightarrow> handle list pool" where
  "array_push h v p =
     (case array_of p h of None \<Rightarrow> p | Some xs \<Rightarrow> pool_put h (xs @ [v]) p)"

definition array_erase :: "handle \<Rightarrow> nat \<Rightarrow> handle list pool \<Rightarrow> handle list pool option" where
  "array_erase h i p =
     (case array_of p h of
        None \<Rightarrow> Some p
      | Some xs \<Rightarrow>
          if i < length xs then Some (pool_put h (take i xs @ drop (Suc i) xs) p) else None)"

definition array_clear :: "handle \<Rightarrow> handle list pool \<Rightarrow> handle list pool" where
  "array_clear h p = (case array_of p h of None \<Rightarrow> p | Some xs \<Rightarrow> pool_put h [] p)"

text \<open>
  Modelled from the spec: \<open>ScenePool\<close> is not among the sources either. It holds the
  packed scene record to which the scene publishes its changes (section 4.3); the record
  has the four \<open>SceneView\<close> slots the scene writes with \<open>ScenePool.set\<close>.
\<close>

record SceneView =
  MAIN_LIGHT :: handle
  MODEL_ARRAY :: handle
  SPOT_LIGHT_ARRAY :: handle
  SPHERE_LIGHT_ARRAY :: handle

definition empty_view :: SceneView where
  "empty_view = \<lparr>MAIN_LIGHT = 0, MODEL_ARRAY = 0, SPOT_LIGHT_ARRAY = 0, SPHERE_LIGHT_ARRAY = 0\<rparr>"

definition scene_set :: "handle \<Rightarrow> (SceneView \<Rightarrow> SceneView) \<Rightarrow> SceneView pool \<Rightarrow> SceneView pool" where
  "scene_set h f p =
     (if h = NULL_HANDLE then p
      else case pool_get p h of None \<Rightarrow> p | Some v \<Rightarrow> pool_put h (f v) p)"

section \<open>JavaScript numbers and the geometry types\<close>

text \<open>
  A JavaScript number is a double: a finite value, one of the two infinities, or NaN.
  Finite values are reals here, so comparison and \<open>Math.min\<close> are exact and the
  rounding of a product is not modelled; signed zeros are one zero. Every comparison with
  NaN is false, as in the source language.
\<close>

datatype number = NaN | NegInf | Fin real | PosInf

fun num_lt :: "number \<Rightarrow> number \<Rightarrow> bool" where
  "num_lt NaN b = False"
| "num_lt a NaN = False"
| "num_lt a NegInf = False"
| "num_lt NegInf b = True"
| "num_lt PosInf b = False"
| "num_lt (Fin a) PosInf = True"
| "num_lt (Fin a) (Fin b) = (a < b)"

fun num_le :: "number \<Rightarrow> number \<Rightarrow> bool" where
  "num_le NaN b = False"
| "num_le a NaN = False"
| "num_le NegInf b = True"
| "num_le a NegInf = False"
| "num_le a PosInf = True"
| "num_le PosInf b = False"
| "num_le (Fin a) (Fin b) = (a \<le> b)"

definition num_ge :: "number \<Rightarrow> number \<Rightarrow> bool" where
  "num_ge a b = num_le b a"

text \<open>\<open>Math.min\<close> of two numbers: NaN when either is NaN.\<close>

fun Math_min :: "number \<Rightarrow> number \<Rightarrow> number" where
  "Math_min NaN b = NaN"
| "Math_min a NaN = NaN"
| "Math_min a b = (if num_le a b then a else b)"

text \<open>The product \<open>a * b\<close>: NaN when either is NaN or when an infinity meets zero.\<close>

fun num_sign :: "number \<Rightarrow> int" where
  "num_sign NaN = 0"
| "num_sign NegInf = -1"
| "num_sign PosInf = 1"
| "num_sign (Fin a) = (if a < 0 then -1 else if a = 0 then 0 else 1)"

fun num_mul :: "number \<Rightarrow> number \<Rightarrow> number" where
  "num_mul NaN b = NaN"
| "num_mul a NaN = NaN"
| "num_mul (Fin a) (Fin b) = Fin (a * b)"
| "num_mul a b =
     (if num_sign a * num_sign b = 0 then NaN
      else if num_sign a * num_sign b < 0 then NegInf else PosInf)"

definition Infinity :: number where
  "Infinity = PosInf"

type_synonym Vec3 = "number \<times> number \<times> number"
type_synonym Mat4 = "number list"

record Ray =
  ray_o :: Vec3
  ray_d :: Vec3

record AABB =
  center :: Vec3
  halfExtents :: Vec3

text \<open>
  A coordinate read from a typed array is a number, or \<open>undefined\<close> (\<open>None\<close>) when
  the index is out of range. The scratch triangle \<open>tri\<close> of the source holds three
  vertices of three such coordinates.
\<close>

type_synonym coord = "number option"
type_synonym vertex = "coord \<times> coord \<times> coord"

record Triangle =
  tri_a :: vertex
  tri_b :: vertex
  tri_c :: vertex

text \<open>
  A node of the scene graph, with the fields the scene reads and writes: the layer
  bitmask (a 32-bit integer under \<open>&\<close> and \<open>|=\<close>), the active flag, the changed-flags
  word, the UI transform component (absent, or the box its \<open>getComputeAABB\<close> fills),
  the world matrix and scale, and the children (an entry may be null).
\<close>

datatype Node = Node
  (node_id: ref)
  (layer: "32 word")
  (active: bool)
  (hasChangedFlags: "32 word")
  (uiTransformComp: "AABB option")
  (worldMatrix: Mat4)
  (worldScale: Vec3)
  (children: "Node option list")

fun set_hasChangedFlags :: "32 word \<Rightarrow> Node \<Rightarrow> Node" where
  "set_hasChangedFlags f (Node i l a c u m s ch) = Node i l a f u m s ch"

section \<open>The entities of a scene\<close>

text \<open>
  Modelled from the spec: the classes Camera, Light and Model are not among the sources.
  Section 2 of the specification says each attaches to and detaches from exactly one
  scene; section 3 gives a model its transform, world bounds, enabled flag, layer (on
  its node), type tag and sub-models, each sub-model a mesh surface with positions, an
  index buffer, a primitive topology and a double-sided flag, and gives lights and
  models a pool handle. \<open>attachToScene\<close> stores the scene, \<open>detachFromScene\<close> stores
  null, and \<open>destroy\<close> of a model marks it destroyed.
\<close>

datatype ModelType = DEFAULT | OtherModelType nat

datatype PrimitiveMode = TRIANGLE_LIST | TRIANGLE_STRIP | TRIANGLE_FAN | OtherPrimitive nat

record IGeometricInfo =
  positions :: "number list"
  indices :: "nat list"
  doubleSided :: bool

record RenderingSubMesh =
  geometricInfo :: "IGeometricInfo option"
  primitiveMode :: PrimitiveMode

record SubModel =
  subMesh :: "RenderingSubMesh option"

record Camera =
  cam_scene :: "ref option"

record Light =
  light_handle :: handle
  light_scene :: "ref option"
  light_node :: "Node option"

record Model =
  model_handle :: handle
  model_scene :: "ref option"
  model_destroyed :: bool
  transform :: "Node option"
  enabled :: bool
  model_node :: Node
  worldBounds :: "AABB option"
  model_type :: ModelType
  subModels :: "SubModel list"

section \<open>RenderScene\<close>

text \<open>
  The state a scene works on: the object stores (one per class, by reference) and the
  three pools, followed by the private fields of the \<open>RenderScene\<close> itself
  (\<open>this\<close> is \<open>self\<close>). The field \<open>_root\<close> is only handed out by its getter and is
  left out, and so are \<open>update\<close> and \<open>onGlobalPipelineStateChanged\<close>, which only call
  into the entities.
\<close>

record state =
  cameras :: "ref \<Rightarrow> Camera"
  directionalLights :: "ref \<Rightarrow> Light"
  sphereLights :: "ref \<Rightarrow> Light"
  spotLights :: "ref \<Rightarrow> Light"
  models :: "ref \<Rightarrow> Model"
  ModelArrayPool :: "handle list pool"
  LightArrayPool :: "handle list pool"
  ScenePool :: "SceneView pool"
  self :: ref
  s_name :: string
  s_cameras :: "ref list"
  s_models :: "ref list"
  s_directionalLights :: "ref list"
  s_sphereLights :: "ref list"
  s_spotLights :: "ref list"
  s_mainLight :: "ref option"
  s_modelId :: nat
  s_scenePoolHandle :: handle
  s_modelArrayHandle :: handle
  s_sphereLightsHandle :: handle
  s_spotLightsHandle :: handle

definition createHandles :: "state \<Rightarrow> state" where
  "createHandles w =
     (if s_modelArrayHandle w = NULL_HANDLE then
        (let (hm, mp) = pool_alloc [] (ModelArrayPool w);
             (hs, sp) = pool_alloc empty_view (ScenePool w);
             sp1 = scene_set hs (\<lambda>v. v\<lparr>MODEL_ARRAY := hm\<rparr>) sp;
             (hspot, lp1) = pool_alloc [] (LightArrayPool w);
             sp2 = scene_set hs (\<lambda>v. v\<lparr>SPOT_LIGHT_ARRAY := hspot\<rparr>) sp1;
             (hsphere, lp2) = pool_alloc [] lp1;
             sp3 = scene_set hs (\<lambda>v. v\<lparr>SPHERE_LIGHT_ARRAY := hsphere\<rparr>) sp2
         in w\<lparr>ModelArrayPool := mp, LightArrayPool := lp2, ScenePool := sp3,
               s_scenePoolHandle := hs, s_modelArrayHandle := hm,
               s_sphereLightsHandle := hsphere, s_spotLightsHandle := hspot\<rparr>)
      else w)"

text \<open>
  The constructor, run on the stores and pools of \<open>w\<close> for the new object \<open>this\<close>:
  the field initialisers, then \<open>_createHandles\<close>.
\<close>

definition new_RenderScene :: "ref \<Rightarrow> state \<Rightarrow> state" where
  "new_RenderScene this w =
     createHandles (w\<lparr>self := this, s_name := [], s_cameras := [], s_models := [],
       s_directionalLights := [], s_sphereLights := [], s_spotLights := [],
       s_mainLight := None, s_modelId := 0, s_scenePoolHandle := NULL_HANDLE,
       s_modelArrayHandle := NULL_HANDLE, s_sphereLightsHandle := NULL_HANDLE,
       s_spotLightsHandle := NULL_HANDLE\<rparr>)"

definition initialize :: "string \<Rightarrow> state \<Rightarrow> bool \<times> state" where
  "initialize info_name w = (True, createHandles (w\<lparr>s_name := info_name\<rparr>))"

text \<open>\<open>xs.splice(i, 1)\<close>.\<close>

definition splice1 :: "nat \<Rightarrow> 'a list \<Rightarrow> 'a list" where
  "splice1 i xs = take i xs @ drop (Suc i) xs"

text \<open>
  The five \<open>removeX\<close> methods share one loop: run \<open>i\<close> up the list, and at the first
  entry that is the argument (by reference) run the body and return. The body may fail
  (an undefined \<open>erase\<close>), hence the option.
\<close>

function remove_loop ::
  "(state \<Rightarrow> ref list) \<Rightarrow> (nat \<Rightarrow> state \<Rightarrow> state option) \<Rightarrow> ref \<Rightarrow> nat \<Rightarrow> state \<Rightarrow> state option" where
  "remove_loop list_of body x i w =
     (if i < length (list_of w) then
        (if list_of w ! i = x then body i w
         else remove_loop list_of body x (Suc i) w)
      else Some w)"
  by pat_completeness auto
termination
  by (relation "measure (\<lambda>(list_of, body, x, i, w). length (list_of w) - i)") auto

definition addCamera :: "ref \<Rightarrow> state \<Rightarrow> state" where
  "addCamera cam w =
     w\<lparr>cameras := (cameras w)(cam := (cameras w cam)\<lparr>cam_scene := Some (self w)\<rparr>),
       s_cameras := s_cameras w @ [cam]\<rparr>"

definition removeCamera :: "ref \<Rightarrow> state \<Rightarrow> state option" where
  "removeCamera camera =
     remove_loop s_cameras
       (\<lambda>i w. Some (w\<lparr>s_cameras := splice1 i (s_cameras w),
                       cameras := (cameras w)(camera := (cameras w camera)\<lparr>cam_scene := None\<rparr>)\<rparr>))
       camera 0"

text \<open>Detaching every object of a list, in list order.\<close>

definition detach_cameras :: "ref list \<Rightarrow> (ref \<Rightarrow> Camera) \<Rightarrow> (ref \<Rightarrow> Camera)" where
  "detach_cameras rs st = fold (\<lambda>r st. st(r := (st r)\<lparr>cam_scene := None\<rparr>)) rs st"

definition detach_lights :: "ref list \<Rightarrow> (ref \<Rightarrow> Light) \<Rightarrow> (ref \<Rightarrow> Light)" where
  "detach_lights rs st = fold (\<lambda>r st. st(r := (st r)\<lparr>light_scene := None\<rparr>)) rs st"

definition removeCameras :: "state \<Rightarrow> state" where
  "removeCameras w =
     w\<lparr>cameras := detach_cameras (s_cameras w) (cameras w), s_cameras := []\<rparr>"

text \<open>
  \<open>setMainLight\<close> and \<open>unsetMainLight\<close>. The constant \<open>TransformBit.ROTATION\<close> of
  \<open>scene-graph/node-enum\<close> is not among the sources and is a parameter.
\<close>

definition setMainLight :: "ref \<Rightarrow> state \<Rightarrow> state" where
  "setMainLight dl w =
     w\<lparr>s_mainLight := Some dl,
       ScenePool := scene_set (s_scenePoolHandle w)
         (\<lambda>v. v\<lparr>MAIN_LIGHT := light_handle (directionalLights w dl)\<rparr>) (ScenePool w)\<rparr>"

definition mark_rotation :: "32 word \<Rightarrow> Light \<Rightarrow> Light" where
  "mark_rotation ROTATION l =
     (case light_node l of
        None \<Rightarrow> l
      | Some n \<Rightarrow> l\<lparr>light_node := Some (set_hasChangedFlags (hasChangedFlags n OR ROTATION) n)\<rparr>)"

definition unsetMainLight :: "32 word \<Rightarrow> ref \<Rightarrow> state \<Rightarrow> state" where
  "unsetMainLight ROTATION dl w =
     (if s_mainLight w = Some dl then
        (let dlList = s_directionalLights w in
         if length dlList \<noteq> 0 then
           (let ml = dlList ! (length dlList - 1) in
            w\<lparr>s_mainLight := Some ml,
              directionalLights :=
                (directionalLights w)(ml := mark_rotation ROTATION (directionalLights w ml))\<rparr>)
         else w\<lparr>s_mainLight := None\<rparr>)
      else w)"

definition addDirectionalLight :: "ref \<Rightarrow> state \<Rightarrow> state" where
  "addDirectionalLight dl w =
     w\<lparr>directionalLights :=
         (directionalLights w)(dl := (directionalLights w dl)\<lparr>light_scene := Some (self w)\<rparr>),
       s_directionalLights := s_directionalLights w @ [dl]\<rparr>"

definition removeDirectionalLight :: "ref \<Rightarrow> state \<Rightarrow> state option" where
  "removeDirectionalLight dl =
     remove_loop s_directionalLights
       (\<lambda>i w. Some (w\<lparr>directionalLights :=
                         (directionalLights w)(dl := (directionalLights w dl)\<lparr>light_scene := None\<rparr>),
                       s_directionalLights := splice1 i (s_directionalLights w)\<rparr>))
       dl 0"

definition addSphereLight :: "ref \<Rightarrow> state \<Rightarrow> state" where
  "addSphereLight pl w =
     w\<lparr>sphereLights := (sphereLights w)(pl := (sphereLights w pl)\<lparr>light_scene := Some (self w)\<rparr>),
       s_sphereLights := s_sphereLights w @ [pl],
       LightArrayPool :=
         array_push (s_sphereLightsHandle w) (light_handle (sphereLights w pl)) (LightArrayPool w)\<rparr>"

definition removeSphereLight :: "ref \<Rightarrow> state \<Rightarrow> state option" where
  "removeSphereLight pl =
     remove_loop s_sphereLights
       (\<lambda>i w. map_option
          (\<lambda>lp. w\<lparr>sphereLights := (sphereLights w)(pl := (sphereLights w pl)\<lparr>light_scene := None\<rparr>),
                   s_sphereLights := splice1 i (s_sphereLights w),
                   LightArrayPool := lp\<rparr>)
          (array_erase (s_sphereLightsHandle w) i (LightArrayPool w)))
       pl 0"

definition addSpotLight :: "ref \<Rightarrow> state \<Rightarrow> state" where
  "addSpotLight sl w =
     w\<lparr>spotLights := (spotLights w)(sl := (spotLights w sl)\<lparr>light_scene := Some (self w)\<rparr>),
       s_spotLights := s_spotLights w @ [sl],
       LightArrayPool :=
         array_push (s_spotLightsHandle w) (light_handle (spotLights w sl)) (LightArrayPool w)\<rparr>"

definition removeSpotLight :: "ref \<Rightarrow> state \<Rightarrow> state option" where
  "removeSpotLight sl =
     remove_loop s_spotLights
       (\<lambda>i w. map_option
          (\<lambda>lp. w\<lparr>spotLights := (spotLights w)(sl := (spotLights w sl)\<lparr>light_scene := None\<rparr>),
                   s_spotLights := splice1 i (s_spotLights w),
                   LightArrayPool := lp\<rparr>)
          (array_erase (s_spotLightsHandle w) i (LightArrayPool w)))
       sl 0"

definition removeSphereLights :: "state \<Rightarrow> state" where
  "removeSphereLights w =
     w\<lparr>sphereLights := detach_lights (s_sphereLights w) (sphereLights w),
       s_sphereLights := [],
       LightArrayPool := array_clear (s_sphereLightsHandle w) (LightArrayPool w)\<rparr>"

definition removeSpotLights :: "state \<Rightarrow> state" where
  "removeSpotLights w =
     w\<lparr>spotLights := detach_lights (s_spotLights w) (spotLights w),
       s_spotLights := [],
       LightArrayPool := array_clear (s_spotLightsHandle w) (LightArrayPool w)\<rparr>"

definition addModel :: "ref \<Rightarrow> state \<Rightarrow> state" where
  "addModel m w =
     w\<lparr>models := (models w)(m := (models w m)\<lparr>model_scene := Some (self w)\<rparr>),
       s_models := s_models w @ [m],
       ModelArrayPool :=
         array_push (s_modelArrayHandle w) (model_handle (models w m)) (ModelArrayPool w)\<rparr>"

definition removeModel :: "ref \<Rightarrow> state \<Rightarrow> state option" where
  "removeModel model =
     remove_loop s_models
       (\<lambda>i w. map_option
          (\<lambda>mp. w\<lparr>models := (models w)(model := (models w model)\<lparr>model_scene := None\<rparr>),
                   s_models := splice1 i (s_models w),
                   ModelArrayPool := mp\<rparr>)
          (array_erase (s_modelArrayHandle w) i (ModelArrayPool w)))
       model 0"

definition detach_destroy_models :: "ref list \<Rightarrow> (ref \<Rightarrow> Model) \<Rightarrow> (ref \<Rightarrow> Model)" where
  "detach_destroy_models rs st =
     fold (\<lambda>r st. st(r := (st r)\<lparr>model_scene := None, model_destroyed := True\<rparr>)) rs st"

definition removeModels :: "state \<Rightarrow> state" where
  "removeModels w =
     w\<lparr>models := detach_destroy_models (s_models w) (models w),
       s_models := [],
       ModelArrayPool := array_clear (s_modelArrayHandle w) (ModelArrayPool w)\<rparr>"

definition generateModelId :: "state \<Rightarrow> nat \<times> state" where
  "generateModelId w = (s_modelId w, w\<lparr>s_modelId := s_modelId w + 1\<rparr>)"

text \<open>\<open>destroy\<close>: each handle is released under its guard and then nulled.\<close>

definition release_handles :: "state \<Rightarrow> state" where
  "release_handles w0 =
     (let w1 = (if s_modelArrayHandle w0 \<noteq> NULL_HANDLE
                then w0\<lparr>ModelArrayPool := pool_free (s_modelArrayHandle w0) (ModelArrayPool w0),
                        s_modelArrayHandle := NULL_HANDLE\<rparr>
                else w0);
          w2 = (if s_scenePoolHandle w1 \<noteq> NULL_HANDLE
                then w1\<lparr>ScenePool := pool_free (s_scenePoolHandle w1) (ScenePool w1),
                        s_scenePoolHandle := NULL_HANDLE\<rparr>
                else w1);
          w3 = (if s_sphereLightsHandle w2 \<noteq> NULL_HANDLE
                then w2\<lparr>LightArrayPool := pool_free (s_sphereLightsHandle w2) (LightArrayPool w2),
                        s_sphereLightsHandle := NULL_HANDLE\<rparr>
                else w2);
          w4 = (if s_spotLightsHandle w3 \<noteq> NULL_HANDLE
                then w3\<lparr>LightArrayPool := pool_free (s_spotLightsHandle w3) (LightArrayPool w3),
                        s_spotLightsHandle := NULL_HANDLE\<rparr>
                else w3)
      in w4)"

definition destroy :: "state \<Rightarrow> state" where
  "destroy w = release_handles (removeModels (removeSpotLights (removeSphereLights (removeCameras w))))"

text \<open>
  The calls that keep the packed arrays: a sequence of them is run from left to right and
  stops with \<open>None\<close> at an undefined \<open>erase\<close>.
\<close>

datatype array_call =
  AddModel ref | RemoveModel ref
| AddSphereLight ref | RemoveSphereLight ref
| AddSpotLight ref | RemoveSpotLight ref

fun array_step :: "array_call \<Rightarrow> state \<Rightarrow> state option" where
  "array_step (AddModel m) w = Some (addModel m w)"
| "array_step (RemoveModel m) w = removeModel m w"
| "array_step (AddSphereLight l) w = Some (addSphereLight l w)"
| "array_step (RemoveSphereLight l) w = removeSphereLight l w"
| "array_step (AddSpotLight l) w = Some (addSpotLight l w)"
| "array_step (RemoveSpotLight l) w = removeSpotLight l w"

fun array_run :: "array_call list \<Rightarrow> state \<Rightarrow> state option" where
  "array_run [] w = Some w"
| "array_run (c # cs) w = (case array_step c w of None \<Rightarrow> None | Some w' \<Rightarrow> array_run cs w')"

text \<open>
  The lock-step of the packed arrays with the logical lists: each of the three arrays is
  live and is, entry by entry, the list of the handles of the entities of its logical
  list (so the lengths agree too), and the two light arrays are different arrays.
\<close>

definition packed_models :: "state \<Rightarrow> handle list option" where
  "packed_models w = array_of (ModelArrayPool w) (s_modelArrayHandle w)"

definition packed_sphereLights :: "state \<Rightarrow> handle list option" where
  "packed_sphereLights w = array_of (LightArrayPool w) (s_sphereLightsHandle w)"

definition packed_spotLights :: "state \<Rightarrow> handle list option" where
  "packed_spotLights w = array_of (LightArrayPool w) (s_spotLightsHandle w)"

definition in_lock_step :: "state \<Rightarrow> bool" where
  "in_lock_step w \<longleftrightarrow>
     packed_models w = Some (map (\<lambda>m. model_handle (models w m)) (s_models w)) \<and>
     packed_sphereLights w = Some (map (\<lambda>l. light_handle (sphereLights w l)) (s_sphereLights w)) \<and>
     packed_spotLights w = Some (map (\<lambda>l. light_handle (spotLights w l)) (s_spotLights w)) \<and>
     s_sphereLightsHandle w \<noteq> s_spotLightsHandle w"

text \<open>
  The calls that touch the main light and the directional-light list, run from left to
  right.
\<close>

datatype light_call =
  SetMainLight ref | UnsetMainLight ref
| AddDirectionalLight ref | RemoveDirectionalLight ref

fun light_step :: "32 word \<Rightarrow> light_call \<Rightarrow> state \<Rightarrow> state option" where
  "light_step ROTATION (SetMainLight dl) w = Some (setMainLight dl w)"
| "light_step ROTATION (UnsetMainLight dl) w = Some (unsetMainLight ROTATION dl w)"
| "light_step ROTATION (AddDirectionalLight dl) w = Some (addDirectionalLight dl w)"
| "light_step ROTATION (RemoveDirectionalLight dl) w = removeDirectionalLight dl w"

fun light_run :: "32 word \<Rightarrow> light_call list \<Rightarrow> state \<Rightarrow> state option" where
  "light_run ROTATION [] w = Some w"
| "light_run ROTATION (c # cs) w =
     (case light_step ROTATION c w of None \<Rightarrow> None | Some w' \<Rightarrow> light_run ROTATION cs w')"

text \<open>The main light is null or an element of the directional-light list.\<close>

definition main_light_listed :: "state \<Rightarrow> bool" where
  "main_light_listed w =
     (case s_mainLight w of None \<Rightarrow> True | Some l \<Rightarrow> l \<in> set (s_directionalLights w))"

text \<open>
  The way the callers use the four calls: \<open>setMainLight\<close> names a light of the list,
  and \<open>removeDirectionalLight\<close> of the current main light is followed at once by
  \<open>unsetMainLight\<close> of the same light.
\<close>

fun call_allowed :: "light_call \<Rightarrow> light_call list \<Rightarrow> state \<Rightarrow> bool" where
  "call_allowed (SetMainLight dl) cs w = (dl \<in> set (s_directionalLights w))"
| "call_allowed (RemoveDirectionalLight dl) cs w =
     (if s_mainLight w = Some dl
      then (case cs of UnsetMainLight dl' # cs' \<Rightarrow> dl' = dl | _ \<Rightarrow> False)
      else True)"
| "call_allowed c cs w = True"

fun caller_protocol :: "32 word \<Rightarrow> light_call list \<Rightarrow> state \<Rightarrow> bool" where
  "caller_protocol ROTATION [] w = True"
| "caller_protocol ROTATION (c # cs) w =
     (call_allowed c cs w \<and>
      (case light_step ROTATION c w of
         None \<Rightarrow> False
       | Some w1 \<Rightarrow> caller_protocol ROTATION cs w1))"

text \<open>A concrete state to run the scene on: stores of blank objects and empty pools.\<close>

definition blank_node :: Node where
  "blank_node = Node 0 0 False 0 None [] (Fin 1, Fin 1, Fin 1) []"

definition blank_light :: Light where
  "blank_light = \<lparr>light_handle = 0, light_scene = None, light_node = Some blank_node\<rparr>"

definition blank_model :: Model where
  "blank_model = \<lparr>model_handle = 0, model_scene = None, model_destroyed = False,
     transform = None, enabled = False, model_node = blank_node, worldBounds = None,
     model_type = DEFAULT, subModels = []\<rparr>"

definition blank_state :: state where
  "blank_state = \<lparr>cameras = (\<lambda>r. \<lparr>cam_scene = None\<rparr>),
     directionalLights = (\<lambda>r. blank_light\<lparr>light_handle := 100 + r\<rparr>),
     sphereLights = (\<lambda>r. blank_light\<lparr>light_handle := 200 + r\<rparr>),
     spotLights = (\<lambda>r. blank_light\<lparr>light_handle := 300 + r\<rparr>),
     models = (\<lambda>r. blank_model\<lparr>model_handle := 400 + r\<rparr>),
     ModelArrayPool = [], LightArrayPool = [], ScenePool = [],
     self = 0, s_name = [], s_cameras = [], s_models = [], s_directionalLights = [],
     s_sphereLights = [], s_spotLights = [], s_mainLight = None, s_modelId = 0,
     s_scenePoolHandle = 0, s_modelArrayHandle = 0, s_sphereLightsHandle = 0,
     s_spotLightsHandle = 0\<rparr>"

text \<open>A scene with the directional lights 1 and 2 added in that order and 2 the main light.\<close>

definition two_lights :: state where
  "two_lights =
     setMainLight 2 (addDirectionalLight 2 (addDirectionalLight 1 (new_RenderScene 0 blank_state)))"

text \<open>A new scene with one camera, one directional light, one sphere light and one model.\<close>

definition small_scene :: state where
  "small_scene =
     addModel 5 (addSphereLight 4 (addDirectionalLight 7 (addCamera 3
       (new_RenderScene 0 blank_state))))"

section \<open>Raycasting\<close>

text \<open>
  The geometry and math library (\<open>intersect.rayAABB\<close>, \<open>intersect.rayTriangle\<close>,
  \<open>Mat4\<close>, \<open>Vec3\<close>), the layer constant \<open>Layers.Enum.IGNORE_RAYCAST\<close> and the build
  flag \<open>PREVIEW\<close> are not among the sources; the raycast functions take them as
  parameters.
\<close>

record toolkit =
  rayAABB :: "Ray \<Rightarrow> AABB \<Rightarrow> number"
  rayTriangle :: "Ray \<Rightarrow> Triangle \<Rightarrow> bool \<Rightarrow> number"
  Mat4_invert :: "Mat4 \<Rightarrow> Mat4"
  Vec3_transformMat4 :: "Vec3 \<Rightarrow> Mat4 \<Rightarrow> Vec3"
  Vec3_transformMat4Normal :: "Vec3 \<Rightarrow> Mat4 \<Rightarrow> Vec3"
  Vec3_normalize :: "Vec3 \<Rightarrow> Vec3"
  Vec3_multiply :: "Vec3 \<Rightarrow> Vec3 \<Rightarrow> Vec3"
  Vec3_length :: "Vec3 \<Rightarrow> number"
  IGNORE_RAYCAST :: "32 word"
  PREVIEW :: bool

text \<open>\<open>IRaycastResult\<close>: the fields \<open>node\<close> and \<open>distance\<close>.\<close>

record IRaycastResult =
  hit_node :: Node
  hit_distance :: number

datatype js_error = TypeError

datatype diagnostic = ModelIsNull

text \<open>
  Modelled from the spec: \<open>RecyclePool\<close> is not among the sources. By section 4.1
  \<open>reset()\<close> makes the pool logically empty and \<open>add()\<close> hands out the next slot,
  growing the storage when needed. The raycast code writes both fields of a slot before
  it stores the slot anywhere, so a pool is the list of its live slots, by value:
  \<open>reset()\<close> gives the empty list, and \<open>add()\<close> with the two field writes appends a
  slot.
\<close>

type_synonym RecyclePool = "IRaycastResult list"

text \<open>
  The module-level variables of the raycast code. A result array is a JavaScript array
  (which may have holes) of slots, by value. \<open>console\<close> collects the
  \<open>console.error\<close> diagnostics. \<open>tested\<close> is the log of the calls of
  \<open>intersect.rayTriangle\<close>, each with its three arguments. The scratch objects
  \<open>v3\<close>, \<open>m4\<close>, \<open>tri\<close> and \<open>aabbUI\<close> are written before every read and are
  local values here.
\<close>

record ray_state =
  modelRay :: Ray
  narrowDis :: number
  pool :: RecyclePool
  resultModels :: "IRaycastResult option list"
  poolUI :: RecyclePool
  resultCanvas :: "IRaycastResult option list"
  resultAll :: "IRaycastResult option list"
  resultSingleModel :: "IRaycastResult option list"
  console :: "diagnostic list"
  tested :: "(Ray \<times> Triangle \<times> bool) list"

text \<open>\<open>xs[k] = v\<close> and \<open>xs.length = n\<close> on a JavaScript array.\<close>

definition js_set :: "'a option list \<Rightarrow> nat \<Rightarrow> 'a \<Rightarrow> 'a option list" where
  "js_set xs k v =
     (if k < length xs then xs[k := Some v] else xs @ replicate (k - length xs) None @ [Some v])"

definition js_set_length :: "'a option list \<Rightarrow> nat \<Rightarrow> 'a option list" where
  "js_set_length xs n = take n xs @ replicate (n - length xs) None"

subsection \<open>The narrow phase\<close>

text \<open>
  \<open>ib[k] * 3\<close>: outside the index buffer \<open>ib[k]\<close> is \<open>undefined\<close> and the product is
  NaN (\<open>None\<close>). \<open>vb[i + off]\<close>: \<open>undefined\<close> when the index is NaN or outside the
  vertex buffer.
\<close>

definition index3 :: "nat list \<Rightarrow> int \<Rightarrow> nat option" where
  "index3 ib k = (if 0 \<le> k \<and> k < int (length ib) then Some (ib ! nat k * 3) else None)"

definition vb_at :: "number list \<Rightarrow> nat option \<Rightarrow> nat \<Rightarrow> coord" where
  "vb_at vb i off =
     (case i of None \<Rightarrow> None
      | Some n \<Rightarrow> if n + off < length vb then Some (vb ! (n + off)) else None)"

definition vertex_at :: "number list \<Rightarrow> nat option \<Rightarrow> vertex" where
  "vertex_at vb i = (vb_at vb i 0, vb_at vb i 1, vb_at vb i 2)"

text \<open>
  One test: \<open>dist = intersect.rayTriangle(modelRay, tri, sides)\<close>, then
  \<open>if (dist <= 0 || dist >= narrowDis) continue; narrowDis = dist\<close>.
\<close>

definition rayTriangle_test :: "toolkit \<Rightarrow> bool \<Rightarrow> Triangle \<Rightarrow> ray_state \<Rightarrow> ray_state" where
  "rayTriangle_test tk sides t st =
     (let dist = rayTriangle tk (modelRay st) t sides
      in st\<lparr>narrowDis :=
               (if num_le dist (Fin 0) \<or> num_ge dist (narrowDis st) then narrowDis st else dist),
             tested := tested st @ [(modelRay st, t, sides)]\<rparr>)"

function list_loop ::
  "toolkit \<Rightarrow> number list \<Rightarrow> nat list \<Rightarrow> bool \<Rightarrow> nat \<Rightarrow> ray_state \<Rightarrow> ray_state" where
  "list_loop tk vb ib sides j st =
     (if j < length ib then
        list_loop tk vb ib sides (j + 3)
          (rayTriangle_test tk sides
             \<lparr>tri_a = vertex_at vb (index3 ib (int j)),
              tri_b = vertex_at vb (index3 ib (int j + 1)),
              tri_c = vertex_at vb (index3 ib (int j + 2))\<rparr> st)
      else st)"
  by pat_completeness auto
termination
  by (relation "measure (\<lambda>(tk, vb, ib, sides, j, st). length ib - j)") auto

function strip_loop ::
  "toolkit \<Rightarrow> number list \<Rightarrow> nat list \<Rightarrow> bool \<Rightarrow> nat \<Rightarrow> int \<Rightarrow> ray_state \<Rightarrow> ray_state" where
  "strip_loop tk vb ib sides j rev' st =
     (if int j < int (length ib) - 2 then
        strip_loop tk vb ib sides (j + 1) (NOT rev')
          (rayTriangle_test tk sides
             \<lparr>tri_a = vertex_at vb (index3 ib (int j - rev')),
              tri_b = vertex_at vb (index3 ib (int j + rev' + 1)),
              tri_c = vertex_at vb (index3 ib (int j + 2))\<rparr> st)
      else st)"
  by pat_completeness auto
termination
  by (relation "measure (\<lambda>(tk, vb, ib, sides, j, rev', st). length ib - j)") auto

function fan_loop ::
  "toolkit \<Rightarrow> number list \<Rightarrow> nat list \<Rightarrow> bool \<Rightarrow> vertex \<Rightarrow> nat \<Rightarrow> ray_state \<Rightarrow> ray_state" where
  "fan_loop tk vb ib sides a j st =
     (if int j < int (length ib) - 1 then
        fan_loop tk vb ib sides a (j + 1)
          (rayTriangle_test tk sides
             \<lparr>tri_a = a,
              tri_b = vertex_at vb (index3 ib (int j)),
              tri_c = vertex_at vb (index3 ib (int j + 1))\<rparr> st)
      else st)"
  by pat_completeness auto
termination
  by (relation "measure (\<lambda>(tk, vb, ib, sides, a, j, st). length ib - j)") auto

definition narrowphase ::
  "toolkit \<Rightarrow> number list \<Rightarrow> nat list \<Rightarrow> PrimitiveMode \<Rightarrow> bool \<Rightarrow> number \<Rightarrow> ray_state \<Rightarrow> ray_state" where
  "narrowphase tk vb ib pm sides distance st0 =
     (let st = st0\<lparr>narrowDis := distance\<rparr>
      in case pm of
           TRIANGLE_LIST \<Rightarrow> list_loop tk vb ib sides 0 st
         | TRIANGLE_STRIP \<Rightarrow> strip_loop tk vb ib sides 0 0 st
         | TRIANGLE_FAN \<Rightarrow> fan_loop tk vb ib sides (vertex_at vb (index3 ib 0)) 1 st
         | OtherPrimitive k \<Rightarrow> st)"

subsection \<open>Models\<close>

text \<open>
  The loop over the sub-models of a DEFAULT model: a sub-model without mesh or geometry
  is skipped; for the others the narrow phase runs with the caller's \<open>distance\<close> and
  \<open>d = Math.min(d, narrowDis * Vec3.multiply(v3, modelRay.d, transform.worldScale).length())\<close>.
\<close>

fun subModels_loop ::
  "toolkit \<Rightarrow> Node \<Rightarrow> number \<Rightarrow> SubModel list \<Rightarrow> number \<Rightarrow> ray_state \<Rightarrow> number \<times> ray_state" where
  "subModels_loop tk tr distance [] d st = (d, st)"
| "subModels_loop tk tr distance (sm # sms) d st =
     (case subMesh sm of
        None \<Rightarrow> subModels_loop tk tr distance sms d st
      | Some mesh \<Rightarrow>
          (case geometricInfo mesh of
             None \<Rightarrow> subModels_loop tk tr distance sms d st
           | Some g \<Rightarrow>
               (let st1 = narrowphase tk (positions g) (indices g) (primitiveMode mesh)
                            (doubleSided g) distance st;
                    d1 = Math_min d
                           (num_mul (narrowDis st1)
                              (Vec3_length tk
                                 (Vec3_multiply tk (ray_d (modelRay st1)) (worldScale tr))))
                in subModels_loop tk tr distance sms d1 st1)))"

text \<open>
  The block under \<open>if (m.type === ModelType.DEFAULT)\<close>, the same in \<open>raycastAllModels\<close>
  and \<open>raycastSingleModel\<close>: the world ray is taken to model space, \<open>d\<close> restarts at
  \<open>Infinity\<close>, and the sub-models are run.
\<close>

definition default_model_distance ::
  "toolkit \<Rightarrow> Ray \<Rightarrow> Node \<Rightarrow> Model \<Rightarrow> number \<Rightarrow> ray_state \<Rightarrow> number \<times> ray_state" where
  "default_model_distance tk worldRay tr m distance st =
     (let m4 = Mat4_invert tk (worldMatrix tr);
          st1 = st\<lparr>modelRay :=
                    \<lparr>ray_o = Vec3_transformMat4 tk (ray_o worldRay) m4,
                     ray_d = Vec3_normalize tk (Vec3_transformMat4Normal tk (ray_d worldRay) m4)\<rparr>\<rparr>
      in subModels_loop tk tr distance (subModels m) Infinity st1)"

text \<open>\<open>m.node.layer & (mask & ~Layers.Enum.IGNORE_RAYCAST)\<close> is truthy.\<close>

definition layer_in_mask :: "toolkit \<Rightarrow> Model \<Rightarrow> 32 word \<Rightarrow> bool" where
  "layer_in_mask tk m mask' \<longleftrightarrow>
     layer (model_node m) AND (mask' AND NOT (IGNORE_RAYCAST tk)) \<noteq> 0"

text \<open>The body of the loop of \<open>raycastAllModels\<close> for one model.\<close>

definition raycastAllModels_body ::
  "toolkit \<Rightarrow> Ray \<Rightarrow> 32 word \<Rightarrow> number \<Rightarrow> Model \<Rightarrow> ray_state \<Rightarrow> ray_state" where
  "raycastAllModels_body tk worldRay mask' distance m st =
     (case transform m of
        None \<Rightarrow> st
      | Some tr \<Rightarrow>
          if \<not> enabled m \<or> \<not> layer_in_mask tk m mask' then st
          else
            (case worldBounds m of
               None \<Rightarrow> st
             | Some wb \<Rightarrow>
                 (let d0 = rayAABB tk worldRay wb in
                  if num_le d0 (Fin 0) \<or> num_ge d0 distance then st
                  else
                    (let (d, st1) =
                           (if model_type m = DEFAULT
                            then default_model_distance tk worldRay tr m distance st
                            else (d0, st))
                     in if num_lt d distance then
                          (let r = \<lparr>hit_node = model_node m, hit_distance = d\<rparr>;
                               p = pool st1 @ [r]
                           in st1\<lparr>pool := p,
                                  resultModels := js_set (resultModels st1) (length p - 1) r\<rparr>)
                        else st1))))"

definition raycastAllModels ::
  "toolkit \<Rightarrow> Ray \<Rightarrow> 32 word \<Rightarrow> number \<Rightarrow> state \<Rightarrow> ray_state \<Rightarrow> bool \<times> ray_state" where
  "raycastAllModels tk worldRay mask' distance w st =
     (let st1 = fold (raycastAllModels_body tk worldRay mask' distance)
                  (map (models w) (s_models w)) (st\<lparr>pool := []\<rparr>);
          st2 = st1\<lparr>resultModels := js_set_length (resultModels st1) (length (pool st1))\<rparr>
      in (length (resultModels st2) > 0, st2))"

text \<open>
  \<open>raycastSingleModel\<close>: the argument may be null (\<open>None\<close>); reading \<open>m.transform\<close> of
  null throws a \<open>TypeError\<close>, which leaves the method with the state as it stands.
\<close>

definition raycastSingleModel ::
  "toolkit \<Rightarrow> Ray \<Rightarrow> Model option \<Rightarrow> 32 word \<Rightarrow> number \<Rightarrow> ray_state
     \<Rightarrow> (js_error + bool) \<times> ray_state" where
  "raycastSingleModel tk worldRay model mask' distance st0 =
     (let st00 = (if PREVIEW tk \<and> model = None
                  then st0\<lparr>console := console st0 @ [ModelIsNull]\<rparr> else st0);
          st = st00\<lparr>pool := []\<rparr>
      in case model of
           None \<Rightarrow> (Inl TypeError, st)
         | Some m \<Rightarrow>
             (case transform m of
                None \<Rightarrow> (Inr False, st)
              | Some tr \<Rightarrow>
                  if \<not> enabled m \<or> \<not> layer_in_mask tk m mask' then (Inr False, st)
                  else
                    (case worldBounds m of
                       None \<Rightarrow> (Inr False, st)
                     | Some wb \<Rightarrow>
                         (let d0 = rayAABB tk worldRay wb in
                          if num_le d0 (Fin 0) \<or> num_ge d0 distance then (Inr False, st)
                          else
                            (let (d, st1) =
                                   (if model_type m = DEFAULT
                                    then default_model_distance tk worldRay tr m distance st
                                    else (d0, st));
                                 st2 =
                                   (if num_lt d distance then
                                      (let r = \<lparr>hit_node = model_node m, hit_distance = d\<rparr>;
                                           p = pool st1 @ [r]
                                       in st1\<lparr>pool := p,
                                              resultSingleModel :=
                                                js_set (resultSingleModel st1) (length p - 1) r\<rparr>)
                                    else st1);
                                 st3 = st2\<lparr>resultSingleModel :=
                                             js_set_length (resultSingleModel st2) (length (pool st2))\<rparr>
                             in (Inr (length (resultSingleModel st3) > 0), st3))))))"

text \<open>
  One pass of the loop body records the result \<open>r\<close>: the pool grows by the slot \<open>r\<close>
  and the slot is stored in the result array at the pool's old length.
\<close>

definition recorded :: "IRaycastResult \<Rightarrow> ray_state \<Rightarrow> ray_state \<Rightarrow> bool" where
  "recorded r st st' \<longleftrightarrow>
     pool st' = pool st @ [r] \<and> resultModels st' = js_set (resultModels st) (length (pool st)) r"

subsection \<open>UI nodes\<close>

text \<open>
  \<open>_raycastUI2DNode\<close>: its callers pass a node that is not null, so the diagnostic for
  a null node is never logged. The result is the new slot, or \<open>undefined\<close> (\<open>None\<close>).
\<close>

definition raycastUI2DNode ::
  "toolkit \<Rightarrow> Ray \<Rightarrow> Node \<Rightarrow> 32 word \<Rightarrow> number \<Rightarrow> ray_state
     \<Rightarrow> IRaycastResult option \<times> ray_state" where
  "raycastUI2DNode tk worldRay ui2dNode mask' distance st =
     (case uiTransformComp ui2dNode of
        None \<Rightarrow> (None, st)
      | Some aabbUI \<Rightarrow>
          if layer ui2dNode AND IGNORE_RAYCAST tk \<noteq> 0 \<or> layer ui2dNode AND mask' = 0
          then (None, st)
          else
            (let d = rayAABB tk worldRay aabbUI in
             if num_le d (Fin 0) then (None, st)
             else if num_lt d distance then
               (let r = \<lparr>hit_node = ui2dNode, hit_distance = d\<rparr>
                in (Some r, st\<lparr>poolUI := poolUI st @ [r]\<rparr>))
             else (None, st)))"

fun raycastUI2DNodeRecursiveChildren ::
  "toolkit \<Rightarrow> Ray \<Rightarrow> Node \<Rightarrow> 32 word \<Rightarrow> number \<Rightarrow> ray_state \<Rightarrow> ray_state"
  and raycastUI2D_children ::
  "toolkit \<Rightarrow> Ray \<Rightarrow> Node option list \<Rightarrow> 32 word \<Rightarrow> number \<Rightarrow> ray_state \<Rightarrow> ray_state" where
  "raycastUI2DNodeRecursiveChildren tk worldRay (Node i l a c u m s ch) mask' distance st =
     (let (result, st1) = raycastUI2DNode tk worldRay (Node i l a c u m s ch) mask' distance st;
          st2 = (case result of
                   None \<Rightarrow> st1
                 | Some r \<Rightarrow>
                     st1\<lparr>resultCanvas := js_set (resultCanvas st1) (length (poolUI st1) - 1) r\<rparr>)
      in raycastUI2D_children tk worldRay ch mask' distance st2)"
| "raycastUI2D_children tk worldRay [] mask' distance st = st"
| "raycastUI2D_children tk worldRay (None # ns) mask' distance st =
     raycastUI2D_children tk worldRay ns mask' distance st"
| "raycastUI2D_children tk worldRay (Some n # ns) mask' distance st =
     raycastUI2D_children tk worldRay ns mask' distance
       (if active n then raycastUI2DNodeRecursiveChildren tk worldRay n mask' distance st else st)"

text \<open>
  \<open>raycastAllCanvas\<close>: \<open>canvasComs\<close> is what
  \<open>legacyCC.director.getScene().getComponentsInChildren(legacyCC.Canvas)\<close> returns, null
  or the canvas components, each with its node (which may be null).
\<close>

record Canvas =
  canvas_node :: "Node option"

fun canvas_loop ::
  "toolkit \<Rightarrow> Ray \<Rightarrow> Canvas list \<Rightarrow> 32 word \<Rightarrow> number \<Rightarrow> ray_state \<Rightarrow> ray_state" where
  "canvas_loop tk worldRay [] mask' distance st = st"
| "canvas_loop tk worldRay (c # cs) mask' distance st =
     canvas_loop tk worldRay cs mask' distance
       (case canvas_node c of
          None \<Rightarrow> st
        | Some canvasNode \<Rightarrow>
            if active canvasNode
            then raycastUI2DNodeRecursiveChildren tk worldRay canvasNode mask' distance st
            else st)"

definition raycastAllCanvas ::
  "toolkit \<Rightarrow> Ray \<Rightarrow> 32 word \<Rightarrow> number \<Rightarrow> Canvas list option \<Rightarrow> ray_state \<Rightarrow> bool \<times> ray_state" where
  "raycastAllCanvas tk worldRay mask' distance canvasComs st =
     (let st0 = st\<lparr>poolUI := []\<rparr>;
          st1 = (case canvasComs of
                   None \<Rightarrow> st0
                 | Some cs \<Rightarrow> if length cs > 0 then canvas_loop tk worldRay cs mask' distance st0
                              else st0);
          st2 = st1\<lparr>resultCanvas := js_set_length (resultCanvas st1) (length (poolUI st1))\<rparr>
      in (length (resultCanvas st2) > 0, st2))"

definition raycastAll ::
  "toolkit \<Rightarrow> Ray \<Rightarrow> 32 word \<Rightarrow> number \<Rightarrow> state \<Rightarrow> Canvas list option \<Rightarrow> ray_state
     \<Rightarrow> bool \<times> ray_state" where
  "raycastAll tk worldRay mask' distance w canvasComs st =
     (let (r_3d, st1) = raycastAllModels tk worldRay mask' distance w st;
          (r_ui2d, st2) = raycastAllCanvas tk worldRay mask' distance canvasComs st1;
          isHit = r_3d \<or> r_ui2d
      in (isHit,
          st2\<lparr>resultAll := (if isHit then resultModels st2 @ resultCanvas st2 else [])\<rparr>))"

text \<open>
  The triangle-strip windows in the words of the specification: window \<open>j\<close> takes the
  indices \<open>ib[j]\<close>, \<open>ib[j+1]\<close>, \<open>ib[j+2]\<close>, led by \<open>ib[j]\<close> when \<open>j\<close> is even and by
  \<open>ib[j+1]\<close> when \<open>j\<close> is odd. \<open>vertex_of vb k\<close> is vertex number \<open>k\<close> of the vertex
  buffer.
\<close>

definition vertex_of :: "number list \<Rightarrow> nat \<Rightarrow> vertex" where
  "vertex_of vb k = vertex_at vb (Some (k * 3))"

definition strip_window :: "number list \<Rightarrow> nat list \<Rightarrow> nat \<Rightarrow> Triangle" where
  "strip_window vb ib j =
     (if even j
      then \<lparr>tri_a = vertex_of vb (ib ! j), tri_b = vertex_of vb (ib ! (j + 1)),
            tri_c = vertex_of vb (ib ! (j + 2))\<rparr>
      else \<lparr>tri_a = vertex_of vb (ib ! (j + 1)), tri_b = vertex_of vb (ib ! j),
            tri_c = vertex_of vb (ib ! (j + 2))\<rparr>)"

subsection \<open>A concrete scenario\<close>

text \<open>
  A geometry library that answers one fixed scenario: the ray enters every box at distance
  \<open>box_d\<close>, \<open>intersect.rayTriangle\<close> returns \<open>tri_d\<close> for every triangle (0 is a
  miss), the matrix and vector operations leave their first argument as it is, and the
  scaled direction has the length \<open>len\<close>. \<open>IGNORE_RAYCAST\<close> is bit 20 and the build
  is a development build.
\<close>

definition stub_toolkit :: "number \<Rightarrow> number \<Rightarrow> number \<Rightarrow> toolkit" where
  "stub_toolkit box_d tri_d len =
     \<lparr>rayAABB = (\<lambda>r b. box_d), rayTriangle = (\<lambda>r t s. tri_d),
      Mat4_invert = (\<lambda>m. m), Vec3_transformMat4 = (\<lambda>v m. v),
      Vec3_transformMat4Normal = (\<lambda>v m. v), Vec3_normalize = (\<lambda>v. v),
      Vec3_multiply = (\<lambda>a b. a), Vec3_length = (\<lambda>v. len),
      IGNORE_RAYCAST = 0x100000, PREVIEW = True\<rparr>"

text \<open>
  The scenario: the ray runs from the origin along the z axis. The box spans z from 2 to
  11 around the axis, so the ray enters it at distance 2. A node sits at (0, 0, 3) with
  the uniform world scale \<open>s\<close>, so the model-space ray starts at (0, 0, -3/s), has the
  direction (0, 0, 1), and its scaled direction has the length \<open>s\<close>.
\<close>

definition z_ray :: Ray where
  "z_ray = \<lparr>ray_o = (Fin 0, Fin 0, Fin 0), ray_d = (Fin 0, Fin 0, Fin 1)\<rparr>"

definition some_box :: AABB where
  "some_box = \<lparr>center = (Fin 0, Fin 0, Fin (13/2)), halfExtents = (Fin 1, Fin 1, Fin (9/2))\<rparr>"

definition idle :: ray_state where
  "idle = \<lparr>modelRay = z_ray, narrowDis = Infinity, pool = [], resultModels = [],
     poolUI = [], resultCanvas = [], resultAll = [], resultSingleModel = [],
     console = [], tested = []\<rparr>"

definition scaled_node :: "32 word \<Rightarrow> real \<Rightarrow> Node" where
  "scaled_node l s =
     Node 9 l True 0 None
       [Fin s, Fin 0, Fin 0, Fin 0,  Fin 0, Fin s, Fin 0, Fin 0,
        Fin 0, Fin 0, Fin s, Fin 0,  Fin 0, Fin 0, Fin 3, Fin 1]
       (Fin s, Fin s, Fin s) []"

text \<open>
  Vertex buffers of one triangle in model space: one beside the z axis, which the ray
  misses, and one across the z axis at height \<open>z\<close>, which the ray meets.
\<close>

definition beside_axis :: "number list" where
  "beside_axis = [Fin 1, Fin 1, Fin 0,  Fin 2, Fin 1, Fin 0,  Fin 1, Fin 2, Fin 0]"

definition across_axis :: "real \<Rightarrow> number list" where
  "across_axis z = [Fin (- 1), Fin (- 1), Fin z,  Fin 1, Fin (- 1), Fin z,  Fin 0, Fin 1, Fin z]"

text \<open>One sub-model: a triangle list with the single triangle (0, 1, 2).\<close>

definition one_triangle :: "number list \<Rightarrow> SubModel list" where
  "one_triangle vb =
     [\<lparr>subMesh = Some \<lparr>geometricInfo = Some
         \<lparr>positions = vb, indices = [0, 1, 2], doubleSided = False\<rparr>,
        primitiveMode = TRIANGLE_LIST\<rparr>\<rparr>]"

text \<open>An enabled model of the given type, layer, scale and sub-models, with the box as
  its world bounds, and a new scene that holds it as its only model.\<close>

definition test_model :: "ModelType \<Rightarrow> 32 word \<Rightarrow> real \<Rightarrow> SubModel list \<Rightarrow> Model" where
  "test_model ty l s sms =
     \<lparr>model_handle = 1, model_scene = None, model_destroyed = False,
      transform = Some (scaled_node l s), enabled = True, model_node = scaled_node l s,
      worldBounds = Some some_box, model_type = ty, subModels = sms\<rparr>"

definition scene_with :: "Model \<Rightarrow> state" where
  "scene_with m = addModel 5 (new_RenderScene 0 (blank_state\<lparr>models := (\<lambda>r. m)\<rparr>))"

text \<open>
  The query of the scenario: the scene's only model is an enabled DEFAULT model in the
  layer \<open>l\<close> with the scale \<open>s\<close> and the one triangle of \<open>vb\<close>; the library reports
  the box at distance 2, \<open>tri_d\<close> for the triangle and \<open>s\<close> for the length of the
  scaled direction; the caller passes the mask \<open>1 << 30\<close> and the maximum distance
  \<open>cap\<close>.
\<close>

definition triangle_query ::
  "32 word \<Rightarrow> real \<Rightarrow> number list \<Rightarrow> number \<Rightarrow> number \<Rightarrow> bool \<times> ray_state" where
  "triangle_query l s vb tri_d cap =
     raycastAllModels (stub_toolkit (Fin 2) tri_d (Fin s)) z_ray 0x40000000 cap
       (scene_with (test_model DEFAULT l s (one_triangle vb))) idle"

text \<open>A UI node in the layer \<open>l\<close> with a UI transform whose box is \<open>some_box\<close>.\<close>

definition ui_node :: "32 word \<Rightarrow> Node" where
  "ui_node l = Node 8 l True 0 (Some some_box) [] (Fin 1, Fin 1, Fin 1) []"

section \<open>The pools\<close>

lemma pool_get_put:
  "pool_get (pool_put h v p) k =
     (if k = h then map_option (\<lambda>u. v) (pool_get p h) else pool_get p k)"
  by (induction p) auto

lemma pool_top_ge: "pool_get p k = Some v \<Longrightarrow> k \<le> pool_top p"
  by (induction p) (auto split: if_splits)

lemma pool_get_free: "pool_get (pool_free h p) k = (if k = h then None else pool_get p k)"
  by (induction p) (auto simp: pool_free_def)

lemma array_push_get:
  "array_of p h = Some xs \<Longrightarrow>
   array_of (array_push h v p) k = (if k = h then Some (xs @ [v]) else array_of p k)"
  by (auto simp: array_push_def array_of_def pool_get_put split: if_splits)

lemma array_erase_get:
  "array_of p h = Some xs \<Longrightarrow> i < length xs \<Longrightarrow>
   \<exists>p'. array_erase h i p = Some p' \<and>
     (\<forall>k. array_of p' k = (if k = h then Some (splice1 i xs) else array_of p k))"
  by (auto simp: array_erase_def array_of_def pool_get_put splice1_def split: if_splits)

lemma array_null_noop:
  "array_push NULL_HANDLE v p = p" "array_clear NULL_HANDLE p = p"
  "array_erase NULL_HANDLE i p = Some p"
  by (simp_all add: array_push_def array_clear_def array_erase_def array_of_def)

lemma map_splice1: "map f (splice1 i xs) = splice1 i (map f xs)"
  by (simp add: splice1_def take_map drop_map)

section \<open>The packed arrays stay in lock-step\<close>

lemma remove_loop_keeps:
  assumes body: "\<And>i w. P w \<Longrightarrow> i < length (list_of w) \<Longrightarrow> list_of w ! i = x \<Longrightarrow>
                   \<exists>w'. body i w = Some w' \<and> P w'"
    and inv: "P w"
  shows "\<exists>w'. remove_loop list_of body x i w = Some w' \<and> P w'"
proof (induction "length (list_of w) - i" arbitrary: i)
  case 0
  then have "\<not> i < length (list_of w)" by simp
  with inv show ?case by simp
next
  case (Suc n)
  then have less: "i < length (list_of w)" by simp
  show ?case
  proof (cases "list_of w ! i = x")
    case True
    from body [OF inv less True] less True show ?thesis by simp
  next
    case False
    from Suc.hyps have "n = length (list_of w) - Suc i" by simp
    from Suc.hyps(1) [OF this] less False show ?thesis by simp
  qed
qed

lemma remove_loop_first:
  "remove_loop list_of body x 0 w =
     (if 0 < length (list_of w) then
        (if list_of w ! 0 = x then body 0 w else remove_loop list_of body x (Suc 0) w)
      else Some w)"
  by simp

lemma addModel_lock_step: "in_lock_step w \<Longrightarrow> in_lock_step (addModel m w)"
  by (auto simp: in_lock_step_def addModel_def packed_models_def packed_sphereLights_def
      packed_spotLights_def array_push_get)

lemma addSphereLight_lock_step: "in_lock_step w \<Longrightarrow> in_lock_step (addSphereLight m w)"
  by (auto simp: in_lock_step_def addSphereLight_def packed_models_def packed_sphereLights_def
      packed_spotLights_def array_push_get)

lemma addSpotLight_lock_step: "in_lock_step w \<Longrightarrow> in_lock_step (addSpotLight m w)"
  by (auto simp: in_lock_step_def addSpotLight_def packed_models_def packed_sphereLights_def
      packed_spotLights_def array_push_get)

lemma removeModel_lock_step:
  assumes "in_lock_step w"
  shows "\<exists>w'. removeModel m w = Some w' \<and> in_lock_step w'"
  unfolding removeModel_def
proof (rule remove_loop_keeps [where P = in_lock_step, OF _ assms])
  fix i w
  assume inv: "in_lock_step w" and i: "i < length (s_models w)"
  let ?xs = "map (\<lambda>m. model_handle (models w m)) (s_models w)"
  from inv have g: "array_of (ModelArrayPool w) (s_modelArrayHandle w) = Some ?xs"
    by (simp add: in_lock_step_def packed_models_def)
  from i have "i < length ?xs" by simp
  from array_erase_get [OF g this] obtain p' where
    e: "array_erase (s_modelArrayHandle w) i (ModelArrayPool w) = Some p'"
    and p': "\<And>k. array_of p' k =
               (if k = s_modelArrayHandle w then Some (splice1 i ?xs)
                else array_of (ModelArrayPool w) k)"
    by blast
  show "\<exists>w'. map_option
          (\<lambda>mp. w\<lparr>models := (models w)(m := (models w m)\<lparr>model_scene := None\<rparr>),
                   s_models := splice1 i (s_models w),
                   ModelArrayPool := mp\<rparr>)
          (array_erase (s_modelArrayHandle w) i (ModelArrayPool w)) = Some w' \<and> in_lock_step w'"
    using inv
    by (auto simp: e p' in_lock_step_def packed_models_def packed_sphereLights_def
        packed_spotLights_def map_splice1 intro!: arg_cong [where f = "splice1 i"])
qed

lemma removeSphereLight_lock_step:
  assumes "in_lock_step w"
  shows "\<exists>w'. removeSphereLight l w = Some w' \<and> in_lock_step w'"
  unfolding removeSphereLight_def
proof (rule remove_loop_keeps [where P = in_lock_step, OF _ assms])
  fix i w
  assume inv: "in_lock_step w" and i: "i < length (s_sphereLights w)"
  let ?xs = "map (\<lambda>l. light_handle (sphereLights w l)) (s_sphereLights w)"
  from inv have g: "array_of (LightArrayPool w) (s_sphereLightsHandle w) = Some ?xs"
    by (simp add: in_lock_step_def packed_sphereLights_def)
  from i have "i < length ?xs" by simp
  from array_erase_get [OF g this] obtain p' where
    e: "array_erase (s_sphereLightsHandle w) i (LightArrayPool w) = Some p'"
    and p': "\<And>k. array_of p' k =
               (if k = s_sphereLightsHandle w then Some (splice1 i ?xs)
                else array_of (LightArrayPool w) k)"
    by blast
  show "\<exists>w'. map_option
          (\<lambda>lp. w\<lparr>sphereLights := (sphereLights w)(l := (sphereLights w l)\<lparr>light_scene := None\<rparr>),
                   s_sphereLights := splice1 i (s_sphereLights w),
                   LightArrayPool := lp\<rparr>)
          (array_erase (s_sphereLightsHandle w) i (LightArrayPool w)) = Some w' \<and> in_lock_step w'"
    using inv
    by (auto simp: e p' in_lock_step_def packed_models_def packed_sphereLights_def
        packed_spotLights_def map_splice1 intro!: arg_cong [where f = "splice1 i"])
qed

lemma removeSpotLight_lock_step:
  assumes "in_lock_step w"
  shows "\<exists>w'. removeSpotLight l w = Some w' \<and> in_lock_step w'"
  unfolding removeSpotLight_def
proof (rule remove_loop_keeps [where P = in_lock_step, OF _ assms])
  fix i w
  assume inv: "in_lock_step w" and i: "i < length (s_spotLights w)"
  let ?xs = "map (\<lambda>l. light_handle (spotLights w l)) (s_spotLights w)"
  from inv have g: "array_of (LightArrayPool w) (s_spotLightsHandle w) = Some ?xs"
    by (simp add: in_lock_step_def packed_spotLights_def)
  from i have "i < length ?xs" by simp
  from array_erase_get [OF g this] obtain p' where
    e: "array_erase (s_spotLightsHandle w) i (LightArrayPool w) = Some p'"
    and p': "\<And>k. array_of p' k =
               (if k = s_spotLightsHandle w then Some (splice1 i ?xs)
                else array_of (LightArrayPool w) k)"
    by blast
  show "\<exists>w'. map_option
          (\<lambda>lp. w\<lparr>spotLights := (spotLights w)(l := (spotLights w l)\<lparr>light_scene := None\<rparr>),
                   s_spotLights := splice1 i (s_spotLights w),
                   LightArrayPool := lp\<rparr>)
          (array_erase (s_spotLightsHandle w) i (LightArrayPool w)) = Some w' \<and> in_lock_step w'"
    using inv
    by (auto simp: e p' in_lock_step_def packed_models_def packed_sphereLights_def
        packed_spotLights_def map_splice1 intro!: arg_cong [where f = "splice1 i"])
qed

lemma array_step_lock_step:
  "in_lock_step w \<Longrightarrow> \<exists>w'. array_step c w = Some w' \<and> in_lock_step w'"
  by (cases c)
    (simp_all add: addModel_lock_step addSphereLight_lock_step addSpotLight_lock_step
      removeModel_lock_step removeSphereLight_lock_step removeSpotLight_lock_step)

lemma array_run_lock_step:
  "in_lock_step w \<Longrightarrow> \<exists>w'. array_run cs w = Some w' \<and> in_lock_step w'"
proof (induction cs arbitrary: w)
  case Nil
  then show ?case by simp
next
  case (Cons c cs)
  from array_step_lock_step [OF Cons.prems] obtain w1 where
    s: "array_step c w = Some w1" and i1: "in_lock_step w1" by blast
  from Cons.IH [OF i1] s show ?case by simp
qed

lemma new_RenderScene_lock_step: "in_lock_step (new_RenderScene this w0)"
  by (simp add: new_RenderScene_def createHandles_def pool_alloc_def Let_def in_lock_step_def
      packed_models_def packed_sphereLights_def packed_spotLights_def NULL_HANDLE_def
      array_of_def)

lemma add_add_remove:
  "\<exists>w'. array_run [AddModel a, AddModel b, RemoveModel a] (new_RenderScene this w0) = Some w' \<and>
     s_models w' = [b] \<and> packed_models w' = Some [model_handle (models w' b)]"
proof -
  let ?w = "new_RenderScene this w0"
  have m: "s_models ?w = []"
    by (simp add: new_RenderScene_def createHandles_def pool_alloc_def Let_def NULL_HANDLE_def)
  let ?w2 = "addModel b (addModel a ?w)"
  have l2: "in_lock_step ?w2"
    by (intro addModel_lock_step new_RenderScene_lock_step)
  have s2: "s_models ?w2 = [a, b]"
    by (simp add: addModel_def m)
  from l2 have g: "array_of (ModelArrayPool ?w2) (s_modelArrayHandle ?w2)
      = Some (map (\<lambda>m. model_handle (models ?w2 m)) [a, b])"
    by (simp only: in_lock_step_def packed_models_def s2)
  have "0 < length (map (\<lambda>m. model_handle (models ?w2 m)) [a, b])" by simp
  from array_erase_get [OF g this] obtain p' where
    e: "array_erase (s_modelArrayHandle ?w2) 0 (ModelArrayPool ?w2) = Some p'"
    and p': "\<And>k. array_of p' k =
       (if k = s_modelArrayHandle ?w2
        then Some (splice1 0 (map (\<lambda>m. model_handle (models ?w2 m)) [a, b]))
        else array_of (ModelArrayPool ?w2) k)"
    by blast
  have r: "removeModel a ?w2 =
      Some (?w2\<lparr>models := (models ?w2)(a := (models ?w2 a)\<lparr>model_scene := None\<rparr>),
                s_models := splice1 0 (s_models ?w2),
                ModelArrayPool := p'\<rparr>)"
    unfolding removeModel_def
    by (subst remove_loop_first) (simp add: s2 e)
  show ?thesis
    by (simp add: r s2 splice1_def packed_models_def p')
qed

text \<open>
  C1. A scene as its constructor leaves it has its three packed arrays in lock-step with
  its logical lists, and from any state in lock-step every sequence of \<open>addModel\<close>,
  \<open>removeModel\<close>, \<open>addSphereLight\<close>, \<open>removeSphereLight\<close>, \<open>addSpotLight\<close> and
  \<open>removeSpotLight\<close> calls runs through (no \<open>erase\<close> is out of range) and ends in
  lock-step: each packed array is the list of the handles of the entities of its logical
  list, index by index, so the lengths agree. After \<open>addModel(a); addModel(b);
  removeModel(a)\<close> on a new scene the model list is \<open>[b]\<close> and the packed model array
  has the one entry that is the handle of \<open>b\<close>.
\<close>

theorem packed_arrays_in_lock_step:
  "in_lock_step (new_RenderScene this w0) \<and>
   (in_lock_step w \<longrightarrow> (\<exists>w'. array_run cs w = Some w' \<and> in_lock_step w')) \<and>
   (\<exists>w'. array_run [AddModel a, AddModel b, RemoveModel a] (new_RenderScene this w0) = Some w' \<and>
      s_models w' = [b] \<and> packed_models w' = Some [model_handle (models w' b)])"
  using new_RenderScene_lock_step array_run_lock_step add_add_remove by blast

theorem packed_arrays_in_lock_step_witness:
  "in_lock_step (new_RenderScene 1 blank_state) \<and>
   (\<exists>w'. array_run [AddSphereLight 3, AddSpotLight 4, AddModel 5, AddSphereLight 6,
                      RemoveSphereLight 3, RemoveModel 5]
            (new_RenderScene 1 blank_state) = Some w' \<and> in_lock_step w')"
  using packed_arrays_in_lock_step [of 1 blank_state "new_RenderScene 1 blank_state"]
  by blast
section \<open>The main light\<close>

lemma remove_loop_cases:
  "(remove_loop list_of body x i w = Some w \<and> x \<notin> set (drop i (list_of w))) \<or>
   (\<exists>k. i \<le> k \<and> k < length (list_of w) \<and> list_of w ! k = x \<and>
        remove_loop list_of body x i w = body k w)"
proof (induction "length (list_of w) - i" arbitrary: i)
  case 0
  then show ?case by simp
next
  case (Suc n)
  then have less: "i < length (list_of w)" by simp
  show ?case
  proof (cases "list_of w ! i = x")
    case True
    with less have "remove_loop list_of body x i w = body i w" by simp
    with less True show ?thesis by blast
  next
    case False
    from Suc.hyps have "n = length (list_of w) - Suc i" by simp
    from Suc.hyps(1) [OF this]
    consider "remove_loop list_of body x (Suc i) w = Some w" "x \<notin> set (drop (Suc i) (list_of w))"
      | k where "Suc i \<le> k" "k < length (list_of w)" "list_of w ! k = x"
          "remove_loop list_of body x (Suc i) w = body k w"
      by blast
    then show ?thesis
    proof cases
      case 1
      from less have "drop i (list_of w) = list_of w ! i # drop (Suc i) (list_of w)"
        by (simp add: Cons_nth_drop_Suc)
      with 1 False less show ?thesis by simp
    next
      case 2
      with less False have "i \<le> k \<and> k < length (list_of w) \<and> list_of w ! k = x \<and>
        remove_loop list_of body x i w = body k w" by simp
      then show ?thesis by blast
    qed
  qed
qed

lemma in_set_splice1:
  assumes "y \<in> set xs" "k < length xs" "y \<noteq> xs ! k"
  shows "y \<in> set (splice1 k xs)"
proof -
  have "y \<in> set (take k xs @ xs ! k # drop (Suc k) xs)"
    by (subst id_take_nth_drop [OF assms(2), symmetric]) (rule assms(1))
  with assms(3) show ?thesis by (auto simp: splice1_def)
qed

lemma removeDirectionalLight_cases:
  "removeDirectionalLight dl w = Some w \<or>
   (\<exists>k. k < length (s_directionalLights w) \<and> s_directionalLights w ! k = dl \<and>
      removeDirectionalLight dl w =
        Some (w\<lparr>directionalLights :=
                  (directionalLights w)(dl := (directionalLights w dl)\<lparr>light_scene := None\<rparr>),
                s_directionalLights := splice1 k (s_directionalLights w)\<rparr>))"
  unfolding removeDirectionalLight_def
  using remove_loop_cases [of s_directionalLights _ dl 0 w] by blast

lemma removeDirectionalLight_total: "\<exists>w1. removeDirectionalLight dl w = Some w1 \<and> s_mainLight w1 = s_mainLight w"
  using removeDirectionalLight_cases [of dl w] by auto

lemma removeDirectionalLight_listed:
  assumes "main_light_listed w" "s_mainLight w \<noteq> Some dl" "removeDirectionalLight dl w = Some w1"
  shows "main_light_listed w1"
  using removeDirectionalLight_cases [of dl w] assms
  by (auto simp: main_light_listed_def in_set_splice1 split: option.splits)

lemma setMainLight_listed:
  "dl \<in> set (s_directionalLights w) \<Longrightarrow> main_light_listed (setMainLight dl w)"
  by (simp add: main_light_listed_def setMainLight_def)

lemma addDirectionalLight_listed:
  "main_light_listed w \<Longrightarrow> main_light_listed (addDirectionalLight dl w)"
  by (auto simp: main_light_listed_def addDirectionalLight_def split: option.splits)

lemma unsetMainLight_listed:
  "s_mainLight w = Some dl \<or> main_light_listed w \<Longrightarrow> main_light_listed (unsetMainLight R dl w)"
  by (auto simp: main_light_listed_def unsetMainLight_def Let_def split: option.splits)

lemma new_RenderScene_listed: "main_light_listed (new_RenderScene this w0)"
  by (simp add: main_light_listed_def new_RenderScene_def createHandles_def pool_alloc_def
      Let_def NULL_HANDLE_def)

lemma light_step_total: "\<exists>w1. light_step R c w = Some w1"
  using removeDirectionalLight_total [of _ w] by (cases c) auto

lemma protocol_step:
  assumes pre: "main_light_listed w \<or> (\<exists>dl cs'. c # cs = UnsetMainLight dl # cs' \<and> s_mainLight w = Some dl)"
    and ok: "call_allowed c cs w"
    and step: "light_step R c w = Some w1"
  shows "main_light_listed w1 \<or> (\<exists>dl cs'. cs = UnsetMainLight dl # cs' \<and> s_mainLight w1 = Some dl)"
proof (cases c)
  case (SetMainLight dl)
  with ok step show ?thesis by (auto simp: setMainLight_listed)
next
  case (UnsetMainLight dl)
  with pre have "s_mainLight w = Some dl \<or> main_light_listed w" by auto
  from unsetMainLight_listed [OF this, of R] UnsetMainLight step show ?thesis by auto
next
  case (AddDirectionalLight dl)
  with pre step show ?thesis by (auto simp: addDirectionalLight_listed)
next
  case (RemoveDirectionalLight dl)
  with pre have listed: "main_light_listed w" by simp
  from RemoveDirectionalLight step have r: "removeDirectionalLight dl w = Some w1" by simp
  show ?thesis
  proof (cases "s_mainLight w = Some dl")
    case False
    from removeDirectionalLight_listed [OF listed False r] show ?thesis ..
  next
    case True
    from removeDirectionalLight_total [of dl w] r have "s_mainLight w1 = s_mainLight w" by simp
    with True ok RemoveDirectionalLight show ?thesis
      by (auto split: list.splits light_call.splits)
  qed
qed

lemma protocol_keeps_listed_gen:
  "main_light_listed w \<or> (\<exists>dl cs'. cs = UnsetMainLight dl # cs' \<and> s_mainLight w = Some dl) \<Longrightarrow>
   caller_protocol R cs w \<Longrightarrow>
   \<exists>w'. light_run R cs w = Some w' \<and> main_light_listed w'"
proof (induction cs arbitrary: w)
  case Nil
  then show ?case by simp
next
  case (Cons c cs)
  from light_step_total obtain w1 where step: "light_step R c w = Some w1" by blast
  from Cons.prems(2) step have ok: "call_allowed c cs w" and rest: "caller_protocol R cs w1"
    by simp_all
  from protocol_step [OF Cons.prems(1) ok step]
  have "main_light_listed w1 \<or> (\<exists>dl cs'. cs = UnsetMainLight dl # cs' \<and> s_mainLight w1 = Some dl)" .
  from Cons.IH [OF this rest] step show ?case by simp
qed

lemma protocol_keeps_listed:
  "main_light_listed w \<Longrightarrow> caller_protocol R cs w \<Longrightarrow>
   \<exists>w'. light_run R cs w = Some w' \<and> main_light_listed w'"
  by (rule protocol_keeps_listed_gen) simp_all

lemma fresh_scene_fields:
  "s_directionalLights (new_RenderScene this w0) = []"
  "s_mainLight (new_RenderScene this w0) = None"
  by (simp_all add: new_RenderScene_def createHandles_def pool_alloc_def Let_def NULL_HANDLE_def)

text \<open>
  C6, amended. A new scene has a null main light. From any state whose main light is null
  or in the directional-light list, every sequence of \<open>setMainLight\<close>,
  \<open>unsetMainLight\<close>, \<open>addDirectionalLight\<close> and \<open>removeDirectionalLight\<close> calls
  that follows the callers' protocol (each \<open>setMainLight\<close> names a light of the list;
  each \<open>removeDirectionalLight\<close> of the current main light is followed at once by
  \<open>unsetMainLight\<close> of that light) ends in a state whose main light is null or in the
  list.
\<close>

theorem main_light_listed_under_protocol:
  "main_light_listed (new_RenderScene this w0) \<and>
   (main_light_listed w \<and> caller_protocol R cs w \<longrightarrow>
      (\<exists>w'. light_run R cs w = Some w' \<and> main_light_listed w'))"
  using new_RenderScene_listed protocol_keeps_listed by blast

theorem main_light_listed_under_protocol_witness:
  "main_light_listed (new_RenderScene 0 blank_state) \<and>
   caller_protocol 2
     [AddDirectionalLight 7, SetMainLight 7, AddDirectionalLight 8, SetMainLight 8,
      RemoveDirectionalLight 8, UnsetMainLight 8] (new_RenderScene 0 blank_state) \<and>
   (\<exists>w'. light_run 2
       [AddDirectionalLight 7, SetMainLight 7, AddDirectionalLight 8, SetMainLight 8,
        RemoveDirectionalLight 8, UnsetMainLight 8] (new_RenderScene 0 blank_state) = Some w' \<and>
      main_light_listed w')"
proof -
  let ?w = "new_RenderScene 0 blank_state"
  let ?cs = "[AddDirectionalLight 7, SetMainLight 7, AddDirectionalLight 8, SetMainLight 8,
      RemoveDirectionalLight 8, UnsetMainLight 8]"
  have p: "caller_protocol 2 ?cs ?w"
    by (simp add: fresh_scene_fields addDirectionalLight_def setMainLight_def
        removeDirectionalLight_def splice1_def)
  from main_light_listed_under_protocol [of 0 blank_state ?w 2 ?cs] p
  show ?thesis by blast
qed

text \<open>
  C6 as stated fails: \<open>setMainLight\<close> stores its argument whether or not it is in the
  list, and \<open>removeDirectionalLight\<close> leaves the main light alone.
\<close>

theorem main_light_not_listed_counterexample:
  "(\<exists>w'. light_run 2 [SetMainLight 7] (new_RenderScene 0 blank_state) = Some w' \<and>
      \<not> main_light_listed w') \<and>
   (\<exists>w'. light_run 2 [AddDirectionalLight 7, SetMainLight 7, RemoveDirectionalLight 7]
       (new_RenderScene 0 blank_state) = Some w' \<and> \<not> main_light_listed w')"
  by (simp add: fresh_scene_fields addDirectionalLight_def setMainLight_def
      removeDirectionalLight_def splice1_def main_light_listed_def)

lemma hasChangedFlags_set [simp]: "hasChangedFlags (set_hasChangedFlags f n) = f"
  by (cases n) simp

lemma remove_then_unset:
  assumes "s_directionalLights w = [l1, l2]" "s_mainLight w = Some l2"
  shows "\<exists>w1. removeDirectionalLight l2 w = Some w1 \<and>
               s_mainLight (unsetMainLight R l2 w1) = Some l1"
proof (cases "l1 = l2")
  case True
  with assms show ?thesis
    unfolding removeDirectionalLight_def
    by (subst remove_loop_first) (simp add: splice1_def unsetMainLight_def Let_def)
next
  case False
  with assms show ?thesis
    unfolding removeDirectionalLight_def
    by (subst remove_loop_first) (simp add: splice1_def unsetMainLight_def Let_def)
qed

text \<open>
  C7, amended. \<open>unsetMainLight(dl)\<close> changes nothing when \<open>dl\<close> is not the main
  light. When it is, and the directional-light list is empty, the main light becomes
  null; when the list is not empty, the main light becomes the last light of the list as
  it stands at the call, and if that light has a node the node's changed-flags get the
  rotation bit or-ed in. The call removes nothing from the list: with the list
  \<open>[l1, l2]\<close> and main light \<open>l2\<close>, it is \<open>removeDirectionalLight(l2)\<close> followed by
  \<open>unsetMainLight(l2)\<close> that makes \<open>l1\<close> the main light.
\<close>

theorem unsetMainLight_falls_back:
  "(s_mainLight w \<noteq> Some dl \<longrightarrow> unsetMainLight R dl w = w) \<and>
   (s_mainLight w = Some dl \<and> s_directionalLights w = [] \<longrightarrow>
      unsetMainLight R dl w = w\<lparr>s_mainLight := None\<rparr>) \<and>
   (s_mainLight w = Some dl \<and> s_directionalLights w \<noteq> [] \<longrightarrow>
      s_mainLight (unsetMainLight R dl w) = Some (last (s_directionalLights w)) \<and>
      s_directionalLights (unsetMainLight R dl w) = s_directionalLights w \<and>
      (\<forall>l. l \<noteq> last (s_directionalLights w) \<longrightarrow>
         directionalLights (unsetMainLight R dl w) l = directionalLights w l) \<and>
      (case light_node (directionalLights w (last (s_directionalLights w))) of
         None \<Rightarrow> directionalLights (unsetMainLight R dl w) (last (s_directionalLights w)) =
                   directionalLights w (last (s_directionalLights w))
       | Some n \<Rightarrow>
           (\<exists>n'. light_node (directionalLights (unsetMainLight R dl w)
                     (last (s_directionalLights w))) = Some n' \<and>
                 hasChangedFlags n' = hasChangedFlags n OR R))) \<and>
   (s_directionalLights w = [l1, l2] \<and> s_mainLight w = Some l2 \<longrightarrow>
      (\<exists>w1. removeDirectionalLight l2 w = Some w1 \<and>
            s_mainLight (unsetMainLight R l2 w1) = Some l1))"
proof (intro conjI impI)
  show "s_mainLight w \<noteq> Some dl \<Longrightarrow> unsetMainLight R dl w = w"
    by (simp add: unsetMainLight_def)
next
  show "s_mainLight w = Some dl \<and> s_directionalLights w = [] \<Longrightarrow>
      unsetMainLight R dl w = w\<lparr>s_mainLight := None\<rparr>"
    by (simp add: unsetMainLight_def)
next
  assume a: "s_mainLight w = Some dl \<and> s_directionalLights w \<noteq> []"
  then show "s_mainLight (unsetMainLight R dl w) = Some (last (s_directionalLights w))"
    by (simp add: unsetMainLight_def Let_def last_conv_nth)
  from a show "s_directionalLights (unsetMainLight R dl w) = s_directionalLights w"
    by (simp add: unsetMainLight_def Let_def)
  from a show "\<forall>l. l \<noteq> last (s_directionalLights w) \<longrightarrow>
         directionalLights (unsetMainLight R dl w) l = directionalLights w l"
    by (simp add: unsetMainLight_def Let_def last_conv_nth)
  from a show "case light_node (directionalLights w (last (s_directionalLights w))) of
         None \<Rightarrow> directionalLights (unsetMainLight R dl w) (last (s_directionalLights w)) =
                   directionalLights w (last (s_directionalLights w))
       | Some n \<Rightarrow>
           (\<exists>n'. light_node (directionalLights (unsetMainLight R dl w)
                     (last (s_directionalLights w))) = Some n' \<and>
                 hasChangedFlags n' = hasChangedFlags n OR R)"
    by (simp add: unsetMainLight_def Let_def last_conv_nth mark_rotation_def
        split: option.splits)
next
  assume "s_directionalLights w = [l1, l2] \<and> s_mainLight w = Some l2"
  then show "\<exists>w1. removeDirectionalLight l2 w = Some w1 \<and>
            s_mainLight (unsetMainLight R l2 w1) = Some l1"
    using remove_then_unset by blast
qed

lemma two_lights_fields:
  "s_directionalLights two_lights = [1, 2]" "s_mainLight two_lights = Some 2"
  by (simp_all add: two_lights_def fresh_scene_fields addDirectionalLight_def setMainLight_def)

theorem unsetMainLight_falls_back_witness:
  "s_directionalLights two_lights = [1, 2] \<and> s_mainLight two_lights = Some 2 \<and>
   s_mainLight two_lights \<noteq> Some 1 \<and>
   unsetMainLight 2 1 two_lights = two_lights \<and>
   s_mainLight (unsetMainLight 2 2 two_lights) = Some 2 \<and>
   (\<exists>w1. removeDirectionalLight 2 two_lights = Some w1 \<and>
         s_mainLight (unsetMainLight 2 2 w1) = Some 1)"
  using unsetMainLight_falls_back [of two_lights 1 2 1 2]
    unsetMainLight_falls_back [of two_lights 2 2 1 2] two_lights_fields
  by simp

text \<open>
  C7 as stated fails in its example: with the list \<open>[1, 2]\<close> and main light 2,
  \<open>unsetMainLight(2)\<close> alone falls back to the last light of the list, which is 2
  itself, not 1.
\<close>

theorem unsetMainLight_example_counterexample:
  "s_directionalLights two_lights = [1, 2] \<and> s_mainLight two_lights = Some 2 \<and>
   s_mainLight (unsetMainLight 2 2 two_lights) = Some 2 \<and>
   s_mainLight (unsetMainLight 2 2 two_lights) \<noteq> Some 1"
  by (simp add: two_lights_fields unsetMainLight_def Let_def)

section \<open>destroy\<close>

lemma fold_point_update:
  assumes "\<And>x. g (g x) = g x"
  shows "fold (\<lambda>r st. st(r := g (st r))) rs st c = (if c \<in> set rs then g (st c) else st c)"
  by (induction rs arbitrary: st) (auto simp: assms)

lemma detach_cameras_at:
  "detach_cameras rs st c = (if c \<in> set rs then (st c)\<lparr>cam_scene := None\<rparr> else st c)"
  unfolding detach_cameras_def by (rule fold_point_update) simp

lemma detach_lights_at:
  "detach_lights rs st l = (if l \<in> set rs then (st l)\<lparr>light_scene := None\<rparr> else st l)"
  unfolding detach_lights_def by (rule fold_point_update) simp

lemma detach_destroy_models_at:
  "detach_destroy_models rs st m =
     (if m \<in> set rs then (st m)\<lparr>model_scene := None, model_destroyed := True\<rparr> else st m)"
  unfolding detach_destroy_models_def by (rule fold_point_update) simp

lemma removeAll_lists:
  "s_cameras (removeModels (removeSpotLights (removeSphereLights (removeCameras w)))) = []"
  "s_sphereLights (removeModels (removeSpotLights (removeSphereLights (removeCameras w)))) = []"
  "s_spotLights (removeModels (removeSpotLights (removeSphereLights (removeCameras w)))) = []"
  "s_models (removeModels (removeSpotLights (removeSphereLights (removeCameras w)))) = []"
  "s_directionalLights (removeModels (removeSpotLights (removeSphereLights (removeCameras w))))
     = s_directionalLights w"
  "s_mainLight (removeModels (removeSpotLights (removeSphereLights (removeCameras w))))
     = s_mainLight w"
  "directionalLights (removeModels (removeSpotLights (removeSphereLights (removeCameras w))))
     = directionalLights w"
  by (simp_all add: removeModels_def removeSpotLights_def removeSphereLights_def removeCameras_def)

lemma removeAll_stores:
  "cameras (removeModels (removeSpotLights (removeSphereLights (removeCameras w))))
     = detach_cameras (s_cameras w) (cameras w)"
  "sphereLights (removeModels (removeSpotLights (removeSphereLights (removeCameras w))))
     = detach_lights (s_sphereLights w) (sphereLights w)"
  "spotLights (removeModels (removeSpotLights (removeSphereLights (removeCameras w))))
     = detach_lights (s_spotLights w) (spotLights w)"
  "models (removeModels (removeSpotLights (removeSphereLights (removeCameras w))))
     = detach_destroy_models (s_models w) (models w)"
  by (simp_all add: removeModels_def removeSpotLights_def removeSphereLights_def removeCameras_def)

lemma removeAll_handles:
  "s_modelArrayHandle (removeModels (removeSpotLights (removeSphereLights (removeCameras w))))
     = s_modelArrayHandle w"
  "s_scenePoolHandle (removeModels (removeSpotLights (removeSphereLights (removeCameras w))))
     = s_scenePoolHandle w"
  "s_sphereLightsHandle (removeModels (removeSpotLights (removeSphereLights (removeCameras w))))
     = s_sphereLightsHandle w"
  "s_spotLightsHandle (removeModels (removeSpotLights (removeSphereLights (removeCameras w))))
     = s_spotLightsHandle w"
  by (simp_all add: removeModels_def removeSpotLights_def removeSphereLights_def removeCameras_def)

lemma release_handles_fields:
  "s_cameras (release_handles w) = s_cameras w"
  "s_sphereLights (release_handles w) = s_sphereLights w"
  "s_spotLights (release_handles w) = s_spotLights w"
  "s_models (release_handles w) = s_models w"
  "s_directionalLights (release_handles w) = s_directionalLights w"
  "s_mainLight (release_handles w) = s_mainLight w"
  "directionalLights (release_handles w) = directionalLights w"
  "cameras (release_handles w) = cameras w"
  "sphereLights (release_handles w) = sphereLights w"
  "spotLights (release_handles w) = spotLights w"
  "models (release_handles w) = models w"
  by (simp_all add: release_handles_def Let_def)

lemma release_handles_nulls:
  "s_modelArrayHandle (release_handles w) = NULL_HANDLE"
  "s_scenePoolHandle (release_handles w) = NULL_HANDLE"
  "s_sphereLightsHandle (release_handles w) = NULL_HANDLE"
  "s_spotLightsHandle (release_handles w) = NULL_HANDLE"
  by (simp_all add: release_handles_def Let_def)

lemma array_of_free: "array_of (pool_free h p) k = (if k = h then None else array_of p k)"
  by (simp add: array_of_def pool_get_free)

lemma release_handles_pools:
  "array_of (ModelArrayPool (release_handles w)) (s_modelArrayHandle w) = None"
  "array_of (LightArrayPool (release_handles w)) (s_sphereLightsHandle w) = None"
  "array_of (LightArrayPool (release_handles w)) (s_spotLightsHandle w) = None"
  "s_scenePoolHandle w \<noteq> NULL_HANDLE \<Longrightarrow>
     pool_get (ScenePool (release_handles w)) (s_scenePoolHandle w) = None"
  by (auto simp: release_handles_def Let_def array_of_free pool_get_free array_of_def)

lemma release_handles_done:
  "s_modelArrayHandle w = NULL_HANDLE \<Longrightarrow> s_scenePoolHandle w = NULL_HANDLE \<Longrightarrow>
   s_sphereLightsHandle w = NULL_HANDLE \<Longrightarrow> s_spotLightsHandle w = NULL_HANDLE \<Longrightarrow>
   release_handles w = w"
  by (simp add: release_handles_def)

lemma removeAll_done:
  assumes "s_cameras w = []" "s_sphereLights w = []" "s_spotLights w = []" "s_models w = []"
    "s_modelArrayHandle w = NULL_HANDLE" "s_sphereLightsHandle w = NULL_HANDLE"
    "s_spotLightsHandle w = NULL_HANDLE"
  shows "removeModels (removeSpotLights (removeSphereLights (removeCameras w))) = w"
  using assms
  by (cases w)
    (simp add: removeModels_def removeSpotLights_def removeSphereLights_def removeCameras_def
      detach_cameras_def detach_lights_def detach_destroy_models_def array_null_noop)

lemma destroy_twice: "destroy (destroy w) = destroy w"
proof -
  let ?w = "destroy w"
  have "removeModels (removeSpotLights (removeSphereLights (removeCameras ?w))) = ?w"
    by (rule removeAll_done)
      (simp_all add: destroy_def release_handles_fields removeAll_lists release_handles_nulls)
  moreover have "release_handles ?w = ?w"
    by (rule release_handles_done) (simp_all add: destroy_def release_handles_nulls)
  ultimately show ?thesis by (simp add: destroy_def [of "destroy w"])
qed

text \<open>
  C8, amended. \<open>destroy()\<close> empties the camera, sphere-light, spot-light and model
  lists, detaches every camera, sphere light, spot light and model that was in them, and
  destroys the models only; it leaves the directional-light list, the directional lights
  and the main light as they were. It releases the model array, the scene record and the
  two light arrays and nulls the four handles. A second call changes nothing.
\<close>

theorem destroy_releases_and_is_idempotent:
  "s_cameras (destroy w) = [] \<and> s_sphereLights (destroy w) = [] \<and>
   s_spotLights (destroy w) = [] \<and> s_models (destroy w) = [] \<and>
   (\<forall>c \<in> set (s_cameras w). cam_scene (cameras (destroy w) c) = None) \<and>
   (\<forall>l \<in> set (s_sphereLights w). light_scene (sphereLights (destroy w) l) = None) \<and>
   (\<forall>l \<in> set (s_spotLights w). light_scene (spotLights (destroy w) l) = None) \<and>
   (\<forall>m \<in> set (s_models w).
      model_scene (models (destroy w) m) = None \<and> model_destroyed (models (destroy w) m)) \<and>
   s_directionalLights (destroy w) = s_directionalLights w \<and>
   directionalLights (destroy w) = directionalLights w \<and>
   s_mainLight (destroy w) = s_mainLight w \<and>
   s_modelArrayHandle (destroy w) = NULL_HANDLE \<and> s_scenePoolHandle (destroy w) = NULL_HANDLE \<and>
   s_sphereLightsHandle (destroy w) = NULL_HANDLE \<and> s_spotLightsHandle (destroy w) = NULL_HANDLE \<and>
   array_of (ModelArrayPool (destroy w)) (s_modelArrayHandle w) = None \<and>
   array_of (LightArrayPool (destroy w)) (s_sphereLightsHandle w) = None \<and>
   array_of (LightArrayPool (destroy w)) (s_spotLightsHandle w) = None \<and>
   (s_scenePoolHandle w \<noteq> NULL_HANDLE \<longrightarrow>
      pool_get (ScenePool (destroy w)) (s_scenePoolHandle w) = None) \<and>
   destroy (destroy w) = destroy w"
proof -
  let ?r = "removeModels (removeSpotLights (removeSphereLights (removeCameras w)))"
  have pools: "array_of (ModelArrayPool (release_handles ?r)) (s_modelArrayHandle w) = None"
    "array_of (LightArrayPool (release_handles ?r)) (s_sphereLightsHandle w) = None"
    "array_of (LightArrayPool (release_handles ?r)) (s_spotLightsHandle w) = None"
    "s_scenePoolHandle w \<noteq> NULL_HANDLE \<longrightarrow>
       pool_get (ScenePool (release_handles ?r)) (s_scenePoolHandle w) = None"
    using release_handles_pools [of ?r] by (simp_all add: removeAll_handles)
  show ?thesis
    using pools
    by (simp add: destroy_twice)
      (simp add: destroy_def release_handles_fields release_handles_nulls removeAll_lists
        removeAll_stores detach_cameras_at detach_lights_at detach_destroy_models_at)
qed

lemma small_scene_fields:
  "s_cameras small_scene = [3]" "s_sphereLights small_scene = [4]" "s_spotLights small_scene = []"
  "s_models small_scene = [5]" "s_directionalLights small_scene = [7]"
  "s_scenePoolHandle small_scene = 1" "self small_scene = 0"
  "light_scene (directionalLights small_scene 7) = Some 0"
  "cam_scene (cameras small_scene 3) = Some 0"
  by (simp_all add: small_scene_def addModel_def addSphereLight_def addDirectionalLight_def
      addCamera_def new_RenderScene_def createHandles_def pool_alloc_def Let_def NULL_HANDLE_def
      blank_state_def)

theorem destroy_releases_and_is_idempotent_witness:
  "3 \<in> set (s_cameras small_scene) \<and> cam_scene (cameras small_scene 3) = Some 0 \<and>
   cam_scene (cameras (destroy small_scene) 3) = None \<and>
   4 \<in> set (s_sphereLights small_scene) \<and>
   light_scene (sphereLights (destroy small_scene) 4) = None \<and>
   5 \<in> set (s_models small_scene) \<and> model_destroyed (models (destroy small_scene) 5) \<and>
   s_scenePoolHandle small_scene \<noteq> NULL_HANDLE \<and>
   pool_get (ScenePool (destroy small_scene)) (s_scenePoolHandle small_scene) = None \<and>
   destroy (destroy small_scene) = destroy small_scene"
  using destroy_releases_and_is_idempotent [of small_scene]
  by (simp add: small_scene_fields NULL_HANDLE_def)

text \<open>
  C8 as stated fails for the directional lights: \<open>destroy()\<close> has no call for them, so a
  directional light stays in the list and stays attached to the scene.
\<close>

theorem destroy_keeps_directional_light_counterexample:
  "s_directionalLights small_scene = [7] \<and>
   light_scene (directionalLights small_scene 7) = Some (self small_scene) \<and>
   s_directionalLights (destroy small_scene) = [7] \<and>
   light_scene (directionalLights (destroy small_scene) 7) = Some (self small_scene)"
  by (simp add: small_scene_fields destroy_def release_handles_fields removeAll_lists)

section \<open>The narrow phase\<close>

lemma rayTriangle_test_fields [simp]:
  "modelRay (rayTriangle_test tk sides t st) = modelRay st"
  "pool (rayTriangle_test tk sides t st) = pool st"
  "resultModels (rayTriangle_test tk sides t st) = resultModels st"
  "tested (rayTriangle_test tk sides t st) = tested st @ [(modelRay st, t, sides)]"
  by (simp_all add: rayTriangle_test_def Let_def)

declare list_loop.simps [simp del] strip_loop.simps [simp del] fan_loop.simps [simp del]

lemma index3_in_range:
  "k < length ib \<Longrightarrow> index3 ib (int k) = Some (ib ! k * 3)"
  "k + 1 < length ib \<Longrightarrow> index3 ib (int k + 1) = Some (ib ! (k + 1) * 3)"
  "k + 2 < length ib \<Longrightarrow> index3 ib (int k + 2) = Some (ib ! (k + 2) * 3)"
  by (simp_all add: index3_def nat_add_distrib)

lemma strip_loop_tested:
  "rev' = (if even j then 0 else - 1) \<Longrightarrow>
   tested (strip_loop tk vb ib sides j rev' st) =
     tested st @ map (\<lambda>k. (modelRay st, strip_window vb ib k, sides)) [j..<length ib - 2]"
proof (induction tk vb ib sides j rev' st rule: strip_loop.induct)
  case (1 tk vb ib sides j rev' st)
  show ?case
  proof (cases "int j < int (length ib) - 2")
    case False
    then have "[j..<length ib - 2] = []" by simp
    with False show ?thesis by (simp add: strip_loop.simps [of tk vb ib sides j])
  next
    case True
    then have j: "j < length ib - 2" by linarith
    then have in_range: "j < length ib" "j + 1 < length ib" "j + 2 < length ib" by simp_all
    let ?t = "\<lparr>tri_a = vertex_at vb (index3 ib (int j - rev')),
               tri_b = vertex_at vb (index3 ib (int j + rev' + 1)),
               tri_c = vertex_at vb (index3 ib (int j + 2))\<rparr>"
    have next_rev: "NOT rev' = (if even (j + 1) then 0 else - 1)"
      using "1.prems" by simp
    have window: "?t = strip_window vb ib j"
    proof (cases "even j")
      case True
      with "1.prems" have "rev' = 0" by simp
      with True in_range show ?thesis
        by (simp add: strip_window_def vertex_of_def index3_in_range)
    next
      case False
      with "1.prems" have "rev' = - 1" by simp
      with False in_range show ?thesis
        by (simp add: strip_window_def vertex_of_def index3_in_range)
    qed
    have upt: "[j..<length ib - 2] = j # [j + 1..<length ib - 2]"
      using j by (simp add: upt_conv_Cons)
    have "tested (strip_loop tk vb ib sides j rev' st) =
          tested (strip_loop tk vb ib sides (j + 1) (NOT rev') (rayTriangle_test tk sides ?t st))"
      using True by (simp add: strip_loop.simps [of tk vb ib sides j])
    also have "\<dots> = tested (rayTriangle_test tk sides ?t st) @
        map (\<lambda>k. (modelRay (rayTriangle_test tk sides ?t st), strip_window vb ib k, sides))
          [j + 1..<length ib - 2]"
      by (rule "1.IH" [OF True next_rev])
    finally show ?thesis
      by (simp add: window upt)
  qed
qed

text \<open>
  C5. For the topology \<open>TRIANGLE_STRIP\<close> the narrow phase calls
  \<open>intersect.rayTriangle\<close> on exactly the windows \<open>j = 0, ..., n - 3\<close> of the index
  buffer of length \<open>n\<close>, in this order and once each, with the model-space ray and the
  double-sided flag: window \<open>j\<close> is \<open>(ib[j], ib[j+1], ib[j+2])\<close> for even \<open>j\<close> and
  \<open>(ib[j+1], ib[j], ib[j+2])\<close> for odd \<open>j\<close>. For \<open>n < 3\<close> no triangle is tested.
\<close>

theorem triangle_strip_windows:
  "tested (narrowphase tk vb ib TRIANGLE_STRIP sides distance st) =
     tested st @ map (\<lambda>j. (modelRay st, strip_window vb ib j, sides)) [0..<length ib - 2]"
  using strip_loop_tested [of 0 0 tk vb ib sides "st\<lparr>narrowDis := distance\<rparr>"]
  by (simp add: narrowphase_def)

section \<open>Raycasting the models\<close>

lemma num_lt_not_le: "num_lt a b \<Longrightarrow> \<not> num_le b a"
  by (cases a; cases b) simp_all

lemma num_lt_not_ge: "num_lt a b \<Longrightarrow> \<not> num_ge a b"
  by (simp add: num_ge_def num_lt_not_le)

lemma list_loop_keeps:
  "pool (list_loop tk vb ib sides j st) = pool st \<and>
   resultModels (list_loop tk vb ib sides j st) = resultModels st \<and>
   modelRay (list_loop tk vb ib sides j st) = modelRay st"
proof (induction tk vb ib sides j st rule: list_loop.induct)
  case (1 tk vb ib sides j st)
  show ?case
  proof (cases "j < length ib")
    case True
    with "1.IH" [OF True] show ?thesis by (simp add: list_loop.simps [of tk vb ib sides j])
  next
    case False
    then show ?thesis by (simp add: list_loop.simps [of tk vb ib sides j])
  qed
qed

lemma strip_loop_keeps:
  "pool (strip_loop tk vb ib sides j rev' st) = pool st \<and>
   resultModels (strip_loop tk vb ib sides j rev' st) = resultModels st \<and>
   modelRay (strip_loop tk vb ib sides j rev' st) = modelRay st"
proof (induction tk vb ib sides j rev' st rule: strip_loop.induct)
  case (1 tk vb ib sides j rev' st)
  show ?case
  proof (cases "int j < int (length ib) - 2")
    case True
    with "1.IH" [OF True] show ?thesis by (simp add: strip_loop.simps [of tk vb ib sides j])
  next
    case False
    then show ?thesis by (simp add: strip_loop.simps [of tk vb ib sides j])
  qed
qed

lemma fan_loop_keeps:
  "pool (fan_loop tk vb ib sides a j st) = pool st \<and>
   resultModels (fan_loop tk vb ib sides a j st) = resultModels st \<and>
   modelRay (fan_loop tk vb ib sides a j st) = modelRay st"
proof (induction tk vb ib sides a j st rule: fan_loop.induct)
  case (1 tk vb ib sides a j st)
  show ?case
  proof (cases "int j < int (length ib) - 1")
    case True
    with "1.IH" [OF True] show ?thesis by (simp add: fan_loop.simps [of tk vb ib sides a j])
  next
    case False
    then show ?thesis by (simp add: fan_loop.simps [of tk vb ib sides a j])
  qed
qed

lemma narrowphase_keeps:
  "pool (narrowphase tk vb ib pm sides distance st) = pool st \<and>
   resultModels (narrowphase tk vb ib pm sides distance st) = resultModels st \<and>
   modelRay (narrowphase tk vb ib pm sides distance st) = modelRay st"
  by (cases pm) (simp_all add: narrowphase_def list_loop_keeps strip_loop_keeps fan_loop_keeps)

lemma subModels_loop_keeps:
  "pool (snd (subModels_loop tk tr distance sms d st)) = pool st \<and>
   resultModels (snd (subModels_loop tk tr distance sms d st)) = resultModels st \<and>
   modelRay (snd (subModels_loop tk tr distance sms d st)) = modelRay st"
  by (induction sms arbitrary: d st) (simp_all add: Let_def narrowphase_keeps split: option.splits)

lemma default_model_distance_keeps:
  "pool (snd (default_model_distance tk worldRay tr m distance st)) = pool st \<and>
   resultModels (snd (default_model_distance tk worldRay tr m distance st)) = resultModels st"
  by (simp add: default_model_distance_def Let_def subModels_loop_keeps)

lemma body_pool:
  "(pool (raycastAllModels_body tk worldRay mask' distance m st) = pool st \<and>
    resultModels (raycastAllModels_body tk worldRay mask' distance m st) = resultModels st) \<or>
   (\<exists>d. recorded \<lparr>hit_node = model_node m, hit_distance = d\<rparr> st
          (raycastAllModels_body tk worldRay mask' distance m st))"
proof -
  obtain d st1 where dm: "default_model_distance tk worldRay (the (transform m)) m distance st = (d, st1)"
    by (cases "default_model_distance tk worldRay (the (transform m)) m distance st")
  with default_model_distance_keeps [of tk worldRay "the (transform m)" m distance st]
  have k: "pool st1 = pool st" "resultModels st1 = resultModels st" by simp_all
  show ?thesis
    using dm k
    by (auto simp: raycastAllModels_body_def Let_def recorded_def split: option.splits)
qed

lemma in_step:
  "take (length p) rm = map Some p \<Longrightarrow>
   take (length (p @ [r])) (js_set rm (length p) r) = map Some (p @ [r])"
proof (cases "length p < length rm")
  case True
  assume t: "take (length p) rm = map Some p"
  from True have "take (Suc (length p)) (rm[length p := Some r]) =
      take (length p) (rm[length p := Some r]) @ [rm[length p := Some r] ! length p]"
    by (simp add: take_Suc_conv_app_nth)
  with True t show ?thesis by (simp add: js_set_def)
next
  case False
  assume t: "take (length p) rm = map Some p"
  then have "length (take (length p) rm) = length p" by simp
  with False have "length rm = length p" by simp
  with t show ?thesis by (simp add: js_set_def)
qed

lemma body_inv:
  assumes "take (length (pool st)) (resultModels st) = map Some (pool st)"
  shows "take (length (pool (raycastAllModels_body tk worldRay mask' distance m st)))
           (resultModels (raycastAllModels_body tk worldRay mask' distance m st))
         = map Some (pool (raycastAllModels_body tk worldRay mask' distance m st))"
  using body_pool [of tk worldRay mask' distance m st] assms
  by (auto simp: recorded_def in_step simp del: length_append)

lemma fold_body_inv:
  "take (length (pool st)) (resultModels st) = map Some (pool st) \<Longrightarrow>
   take (length (pool (fold (raycastAllModels_body tk worldRay mask' distance) ms st)))
     (resultModels (fold (raycastAllModels_body tk worldRay mask' distance) ms st))
   = map Some (pool (fold (raycastAllModels_body tk worldRay mask' distance) ms st))"
  by (induction ms arbitrary: st) (simp_all add: body_inv)

lemma fold_body_grows:
  "\<exists>rs. pool (fold (raycastAllModels_body tk worldRay mask' distance) ms st) = pool st @ rs"
proof (induction ms arbitrary: st)
  case Nil
  then show ?case by simp
next
  case (Cons m ms)
  from Cons.IH [of "raycastAllModels_body tk worldRay mask' distance m st"]
    body_pool [of tk worldRay mask' distance m st]
  show ?case by (auto simp: recorded_def)
qed

lemma js_set_length_exact:
  "take n rm = map Some p \<Longrightarrow> length p = n \<Longrightarrow> js_set_length rm n = map Some p"
proof -
  assume t: "take n rm = map Some p" and l: "length p = n"
  then have "length (take n rm) = n" by simp
  then have "n \<le> length rm" by simp
  with t show ?thesis by (simp add: js_set_length_def)
qed

lemma raycastAllModels_results:
  "resultModels (snd (raycastAllModels tk worldRay mask' distance w st)) =
     map Some (pool (snd (raycastAllModels tk worldRay mask' distance w st))) \<and>
   pool (snd (raycastAllModels tk worldRay mask' distance w st)) =
     pool (fold (raycastAllModels_body tk worldRay mask' distance)
            (map (models w) (s_models w)) (st\<lparr>pool := []\<rparr>)) \<and>
   fst (raycastAllModels tk worldRay mask' distance w st) =
     (pool (snd (raycastAllModels tk worldRay mask' distance w st)) \<noteq> [])"
proof -
  let ?st1 = "fold (raycastAllModels_body tk worldRay mask' distance)
            (map (models w) (s_models w)) (st\<lparr>pool := []\<rparr>)"
  have "take (length (pool ?st1)) (resultModels ?st1) = map Some (pool ?st1)"
    by (rule fold_body_inv) simp
  then have "js_set_length (resultModels ?st1) (length (pool ?st1)) = map Some (pool ?st1)"
    by (rule js_set_length_exact) simp
  then show ?thesis by (simp add: raycastAllModels_def Let_def)
qed

lemma other_type_body:
  assumes "transform m = Some tr" "enabled m" "layer_in_mask tk m mask'"
    "worldBounds m = Some wb" "model_type m \<noteq> DEFAULT"
    "num_lt (Fin 0) (rayAABB tk worldRay wb)" "num_lt (rayAABB tk worldRay wb) distance"
  shows "raycastAllModels_body tk worldRay mask' distance m st =
     st\<lparr>pool := pool st @ [\<lparr>hit_node = model_node m, hit_distance = rayAABB tk worldRay wb\<rparr>],
        resultModels := js_set (resultModels st) (length (pool st))
           \<lparr>hit_node = model_node m, hit_distance = rayAABB tk worldRay wb\<rparr>\<rparr>"
  using assms num_lt_not_le [OF assms(6)] num_lt_not_ge [OF assms(7)]
  by (simp add: raycastAllModels_body_def Let_def)

lemma recorded_stays:
  assumes "m \<in> set ms"
    and "\<And>st. pool (raycastAllModels_body tk worldRay mask' distance m st) = pool st @ [r]"
  shows "r \<in> set (pool (fold (raycastAllModels_body tk worldRay mask' distance) ms st))"
proof -
  from assms(1) obtain xs ys where ms: "ms = xs @ m # ys" by (auto simp: in_set_conv_decomp)
  let ?a = "fold (raycastAllModels_body tk worldRay mask' distance) xs st"
  let ?b = "raycastAllModels_body tk worldRay mask' distance m ?a"
  from fold_body_grows [of tk worldRay mask' distance ys ?b] obtain rs where
    "pool (fold (raycastAllModels_body tk worldRay mask' distance) ys ?b) = pool ?b @ rs" ..
  with assms(2) [of ?a] show ?thesis by (simp add: ms)
qed

text \<open>
  C10. A model of the scene whose type is not DEFAULT, with a transform, enabled, with
  its layer in the mask, with world bounds, and whose broad-phase distance \<open>d\<close> (the
  ray-AABB distance of its world bounds) has \<open>0 < d < distance\<close>: \<open>raycastAllModels\<close>
  returns true and its result array holds a result with the model's node and exactly the
  distance \<open>d\<close>; the pass of the loop for that model calls \<open>intersect.rayTriangle\<close>
  never.
\<close>

theorem other_type_records_broadphase_distance:
  assumes "m \<in> set (map (models w) (s_models w))"
    and "transform m = Some tr" and "enabled m" and "layer_in_mask tk m mask'"
    and "worldBounds m = Some wb" and "model_type m \<noteq> DEFAULT"
    and "num_lt (Fin 0) (rayAABB tk worldRay wb)"
    and "num_lt (rayAABB tk worldRay wb) distance"
  shows "fst (raycastAllModels tk worldRay mask' distance w st) \<and>
         Some \<lparr>hit_node = model_node m, hit_distance = rayAABB tk worldRay wb\<rparr>
           \<in> set (resultModels (snd (raycastAllModels tk worldRay mask' distance w st))) \<and>
         (\<forall>st'. tested (raycastAllModels_body tk worldRay mask' distance m st') = tested st')"
proof -
  let ?r = "\<lparr>hit_node = model_node m, hit_distance = rayAABB tk worldRay wb\<rparr>"
  note body = other_type_body [OF assms(2-8)]
  have "?r \<in> set (pool (fold (raycastAllModels_body tk worldRay mask' distance)
            (map (models w) (s_models w)) (st\<lparr>pool := []\<rparr>)))"
    by (rule recorded_stays [OF assms(1)]) (simp add: body)
  with raycastAllModels_results [of tk worldRay mask' distance w st]
  have "?r \<in> set (pool (snd (raycastAllModels tk worldRay mask' distance w st)))"
    and res: "resultModels (snd (raycastAllModels tk worldRay mask' distance w st)) =
     map Some (pool (snd (raycastAllModels tk worldRay mask' distance w st)))"
    and hit: "fst (raycastAllModels tk worldRay mask' distance w st) =
     (pool (snd (raycastAllModels tk worldRay mask' distance w st)) \<noteq> [])"
    by simp_all
  then show ?thesis by (auto simp: body)
qed
lemma scene_with_models:
  "map (models (scene_with m)) (s_models (scene_with m)) = [m\<lparr>model_scene := Some 0\<rparr>]"
  by (simp add: scene_with_def addModel_def new_RenderScene_def createHandles_def pool_alloc_def
      Let_def NULL_HANDLE_def blank_state_def)

theorem other_type_records_broadphase_distance_witness:
  "fst (raycastAllModels (stub_toolkit (Fin 2) (Fin 0) (Fin 1)) z_ray 0x40000000 (Fin 10)
          (scene_with (test_model (OtherModelType 1) 0x40000000 1 (one_triangle beside_axis)))
          idle) \<and>
   Some \<lparr>hit_node = scaled_node 0x40000000 1, hit_distance = Fin 2\<rparr>
     \<in> set (resultModels (snd (raycastAllModels (stub_toolkit (Fin 2) (Fin 0) (Fin 1)) z_ray
          0x40000000 (Fin 10)
          (scene_with (test_model (OtherModelType 1) 0x40000000 1 (one_triangle beside_axis)))
          idle)))"
  using other_type_records_broadphase_distance
    [of "(test_model (OtherModelType 1) 0x40000000 1 (one_triangle beside_axis))
           \<lparr>model_scene := Some 0\<rparr>"
        "scene_with (test_model (OtherModelType 1) 0x40000000 1 (one_triangle beside_axis))"
        "scaled_node 0x40000000 1" "stub_toolkit (Fin 2) (Fin 0) (Fin 1)" "0x40000000"
        some_box z_ray "Fin 10" idle]
  by (simp add: scene_with_models test_model_def stub_toolkit_def layer_in_mask_def
      scaled_node_def)

section \<open>raycastSingleModel with a null model\<close>

text \<open>
  C9, amended. Called with a null model, \<open>raycastSingleModel\<close> logs the diagnostic in a
  development build only, resets the model pool, and then throws a \<open>TypeError\<close> at the
  read of \<open>m.transform\<close>: it does not return false. No triangle is tested and the
  result array is left as it was.
\<close>

theorem raycastSingleModel_null_throws:
  "fst (raycastSingleModel tk worldRay None mask' distance st) = Inl TypeError \<and>
   console (snd (raycastSingleModel tk worldRay None mask' distance st)) =
     (if PREVIEW tk then console st @ [ModelIsNull] else console st) \<and>
   pool (snd (raycastSingleModel tk worldRay None mask' distance st)) = [] \<and>
   tested (snd (raycastSingleModel tk worldRay None mask' distance st)) = tested st \<and>
   resultSingleModel (snd (raycastSingleModel tk worldRay None mask' distance st)) =
     resultSingleModel st"
  by (simp add: raycastSingleModel_def Let_def)

theorem raycastSingleModel_null_throws_witness:
  "fst (raycastSingleModel (stub_toolkit (Fin 2) (Fin 0) (Fin 1)) z_ray None 0x40000000
          Infinity idle) = Inl TypeError \<and>
   console (snd (raycastSingleModel (stub_toolkit (Fin 2) (Fin 0) (Fin 1)) z_ray None 0x40000000
          Infinity idle)) = [ModelIsNull] \<and>
   resultSingleModel (snd (raycastSingleModel (stub_toolkit (Fin 2) (Fin 0) (Fin 1)) z_ray None
          0x40000000 Infinity idle)) = []"
  using raycastSingleModel_null_throws
    [of "stub_toolkit (Fin 2) (Fin 0) (Fin 1)" z_ray "0x40000000" Infinity idle]
  by (simp add: stub_toolkit_def idle_def)

text \<open>
  C9 as stated fails: with a null model the call ends in a \<open>TypeError\<close>, not in the
  return value false.
\<close>

theorem raycastSingleModel_null_counterexample:
  "fst (raycastSingleModel (stub_toolkit (Fin 2) (Fin 0) (Fin 1)) z_ray None 0x40000000
          Infinity idle) = Inl TypeError \<and>
   fst (raycastSingleModel (stub_toolkit (Fin 2) (Fin 0) (Fin 1)) z_ray None 0x40000000
          Infinity idle) \<noteq> Inr False"
  by (simp add: raycastSingleModel_def Let_def)

section \<open>Where the raycast departs from its description\<close>

lemma rayTriangle_test_no_hit:
  "num_le (rayTriangle tk (modelRay st) t sides) (Fin 0) \<or>
   num_ge (rayTriangle tk (modelRay st) t sides) (narrowDis st) \<Longrightarrow>
   narrowDis (rayTriangle_test tk sides t st) = narrowDis st"
  by (auto simp: rayTriangle_test_def Let_def)

lemma list_loop_no_hit:
  assumes "\<And>t. num_le (rayTriangle tk (modelRay st) t sides) (Fin 0) \<or>
               num_ge (rayTriangle tk (modelRay st) t sides) (narrowDis st)"
  shows "narrowDis (list_loop tk vb ib sides j st) = narrowDis st"
  using assms
proof (induction tk vb ib sides j st rule: list_loop.induct)
  case (1 tk vb ib sides j st)
  show ?case
  proof (cases "j < length ib")
    case True
    let ?t = "\<lparr>tri_a = vertex_at vb (index3 ib (int j)),
               tri_b = vertex_at vb (index3 ib (int j + 1)),
               tri_c = vertex_at vb (index3 ib (int j + 2))\<rparr>"
    have same: "narrowDis (rayTriangle_test tk sides ?t st) = narrowDis st"
      by (rule rayTriangle_test_no_hit) (rule "1.prems")
    have "narrowDis (list_loop tk vb ib sides (j + 3) (rayTriangle_test tk sides ?t st)) =
          narrowDis (rayTriangle_test tk sides ?t st)"
      by (rule "1.IH" [OF True]) (simp add: same "1.prems")
    with True same show ?thesis by (simp add: list_loop.simps [of tk vb ib sides j])
  next
    case False
    then show ?thesis by (simp add: list_loop.simps [of tk vb ib sides j])
  qed
qed

lemma strip_loop_no_hit:
  assumes "\<And>t. num_le (rayTriangle tk (modelRay st) t sides) (Fin 0) \<or>
               num_ge (rayTriangle tk (modelRay st) t sides) (narrowDis st)"
  shows "narrowDis (strip_loop tk vb ib sides j rev' st) = narrowDis st"
  using assms
proof (induction tk vb ib sides j rev' st rule: strip_loop.induct)
  case (1 tk vb ib sides j rev' st)
  show ?case
  proof (cases "int j < int (length ib) - 2")
    case True
    let ?t = "\<lparr>tri_a = vertex_at vb (index3 ib (int j - rev')),
               tri_b = vertex_at vb (index3 ib (int j + rev' + 1)),
               tri_c = vertex_at vb (index3 ib (int j + 2))\<rparr>"
    have same: "narrowDis (rayTriangle_test tk sides ?t st) = narrowDis st"
      by (rule rayTriangle_test_no_hit) (rule "1.prems")
    have "narrowDis (strip_loop tk vb ib sides (j + 1) (NOT rev') (rayTriangle_test tk sides ?t st)) =
          narrowDis (rayTriangle_test tk sides ?t st)"
      by (rule "1.IH" [OF True]) (simp add: same "1.prems")
    with True same show ?thesis by (simp add: strip_loop.simps [of tk vb ib sides j])
  next
    case False
    then show ?thesis by (simp add: strip_loop.simps [of tk vb ib sides j])
  qed
qed

lemma fan_loop_no_hit:
  assumes "\<And>t. num_le (rayTriangle tk (modelRay st) t sides) (Fin 0) \<or>
               num_ge (rayTriangle tk (modelRay st) t sides) (narrowDis st)"
  shows "narrowDis (fan_loop tk vb ib sides a j st) = narrowDis st"
  using assms
proof (induction tk vb ib sides a j st rule: fan_loop.induct)
  case (1 tk vb ib sides a j st)
  show ?case
  proof (cases "int j < int (length ib) - 1")
    case True
    let ?t = "\<lparr>tri_a = a,
               tri_b = vertex_at vb (index3 ib (int j)),
               tri_c = vertex_at vb (index3 ib (int j + 1))\<rparr>"
    have same: "narrowDis (rayTriangle_test tk sides ?t st) = narrowDis st"
      by (rule rayTriangle_test_no_hit) (rule "1.prems")
    have "narrowDis (fan_loop tk vb ib sides a (j + 1) (rayTriangle_test tk sides ?t st)) =
          narrowDis (rayTriangle_test tk sides ?t st)"
      by (rule "1.IH" [OF True]) (simp add: same "1.prems")
    with True same show ?thesis by (simp add: fan_loop.simps [of tk vb ib sides a j])
  next
    case False
    then show ?thesis by (simp add: fan_loop.simps [of tk vb ib sides a j])
  qed
qed

text \<open>
  When no triangle gives a distance strictly between 0 and the cap, the narrow phase
  leaves \<open>narrowDis\<close> at the cap, whatever the topology.
\<close>

lemma narrowphase_no_hit:
  assumes "\<And>t. num_le (rayTriangle tk (modelRay st) t sides) (Fin 0) \<or>
               num_ge (rayTriangle tk (modelRay st) t sides) distance"
  shows "narrowDis (narrowphase tk vb ib pm sides distance st) = distance"
proof -
  let ?st = "st\<lparr>narrowDis := distance\<rparr>"
  have a: "\<And>t. num_le (rayTriangle tk (modelRay ?st) t sides) (Fin 0) \<or>
               num_ge (rayTriangle tk (modelRay ?st) t sides) (narrowDis ?st)"
    using assms by simp
  show ?thesis
    using list_loop_no_hit [of tk ?st sides vb ib 0, OF a]
      strip_loop_no_hit [of tk ?st sides vb ib 0 0, OF a]
      fan_loop_no_hit [of tk ?st sides vb ib "vertex_at vb (index3 ib 0)" 1, OF a]
    by (cases pm) (simp_all add: narrowphase_def)
qed

text \<open>
  The cap is then scaled like a hit distance: a DEFAULT model that passes the filters,
  with one sub-model with geometry and no triangle under the cap, gets
  \<open>d = distance * len\<close>, where \<open>len\<close> is the length of the model-space direction scaled
  by the world scale, and is recorded with that distance as soon as
  \<open>distance * len < distance\<close>.
\<close>

lemma scaled_cap_recorded:
  assumes "transform m = Some tr" "enabled m" "layer_in_mask tk m mask'"
    "worldBounds m = Some wb" "model_type m = DEFAULT"
    "num_lt (Fin 0) (rayAABB tk worldRay wb)" "num_lt (rayAABB tk worldRay wb) distance"
    "subModels m = [\<lparr>subMesh = Some mesh\<rparr>]" "geometricInfo mesh = Some g"
    "\<And>r t. num_le (rayTriangle tk r t (doubleSided g)) (Fin 0) \<or>
            num_ge (rayTriangle tk r t (doubleSided g)) distance"
    "len = Vec3_length tk (Vec3_multiply tk
             (Vec3_normalize tk (Vec3_transformMat4Normal tk (ray_d worldRay)
                (Mat4_invert tk (worldMatrix tr)))) (worldScale tr))"
    "num_lt (num_mul distance len) distance"
  shows "narrowDis (raycastAllModels_body tk worldRay mask' distance m st) = distance \<and>
         recorded \<lparr>hit_node = model_node m, hit_distance = num_mul distance len\<rparr> st
           (raycastAllModels_body tk worldRay mask' distance m st)"
proof -
  let ?st1 = "st\<lparr>modelRay :=
                    \<lparr>ray_o = Vec3_transformMat4 tk (ray_o worldRay) (Mat4_invert tk (worldMatrix tr)),
                     ray_d = Vec3_normalize tk (Vec3_transformMat4Normal tk (ray_d worldRay)
                        (Mat4_invert tk (worldMatrix tr)))\<rparr>\<rparr>"
  let ?np = "narrowphase tk (positions g) (indices g) (primitiveMode mesh) (doubleSided g)
               distance ?st1"
  have nd: "narrowDis ?np = distance"
    by (rule narrowphase_no_hit) (rule assms(10))
  have keep: "pool ?np = pool st" "resultModels ?np = resultModels st" "modelRay ?np = modelRay ?st1"
    using narrowphase_keeps [of tk "positions g" "indices g" "primitiveMode mesh" "doubleSided g"
        distance ?st1] by simp_all
  have mn: "Math_min Infinity (num_mul distance len) = num_mul distance len"
    using assms(12) by (cases "num_mul distance len"; cases distance) (simp_all add: Infinity_def)
  have dm: "default_model_distance tk worldRay tr m distance st = (num_mul distance len, ?np)"
    by (simp add: default_model_distance_def Let_def assms(8,9) assms(11) [symmetric] nd keep mn)
  show ?thesis
    using assms(1-7,12) num_lt_not_le [OF assms(6)] num_lt_not_ge [OF assms(7)]
    by (simp add: raycastAllModels_body_def Let_def dm recorded_def nd keep)
qed
lemma triangle_query_result:
  "triangle_query l s vb tri_d cap =
     (let m = (test_model DEFAULT l s (one_triangle vb))\<lparr>model_scene := Some 0\<rparr>;
          st1 = raycastAllModels_body (stub_toolkit (Fin 2) tri_d (Fin s)) z_ray 0x40000000 cap
                  m idle
      in (length (js_set_length (resultModels st1) (length (pool st1))) > 0,
          st1\<lparr>resultModels := js_set_length (resultModels st1) (length (pool st1))\<rparr>))"
  by (simp add: triangle_query_def raycastAllModels_def scene_with_models Let_def idle_def)

lemma one_triangle_narrowphase:
  "narrowphase tk vb [a, b, c] TRIANGLE_LIST sides cap st =
     rayTriangle_test tk sides
       \<lparr>tri_a = vertex_at vb (Some (a * 3)), tri_b = vertex_at vb (Some (b * 3)),
        tri_c = vertex_at vb (Some (c * 3))\<rparr> (st\<lparr>narrowDis := cap\<rparr>)"
  by (simp add: narrowphase_def list_loop.simps [of _ _ _ _ 0] list_loop.simps [of _ _ _ _ 3]
      index3_def)

text \<open>
  C4 at its failing input. Maximum distance 10, a DEFAULT model with the world scale 1/2
  whose world bounds the ray enters at distance 2 and whose only triangle lies beside the
  ray (\<open>intersect.rayTriangle\<close> returns 0): the narrow phase tests the triangle and
  leaves \<open>narrowDis\<close> at the cap 10, and the model is recorded all the same, with the
  distance \<open>10 * 1/2 = 5\<close>.
\<close>

theorem missed_model_is_recorded:
  "rayTriangle (stub_toolkit (Fin 2) (Fin 0) (Fin (1/2))) = (\<lambda>r t s. Fin 0) \<and>
   fst (triangle_query 0x40000000 (1/2) beside_axis (Fin 0) (Fin 10)) \<and>
   narrowDis (snd (triangle_query 0x40000000 (1/2) beside_axis (Fin 0) (Fin 10))) = Fin 10 \<and>
   length (tested (snd (triangle_query 0x40000000 (1/2) beside_axis (Fin 0) (Fin 10)))) = 1 \<and>
   resultModels (snd (triangle_query 0x40000000 (1/2) beside_axis (Fin 0) (Fin 10))) =
     [Some \<lparr>hit_node = scaled_node 0x40000000 (1/2), hit_distance = Fin 5\<rparr>]"
  by (simp add: triangle_query_result raycastAllModels_body_def default_model_distance_def
      Let_def test_model_def one_triangle_def one_triangle_narrowphase rayTriangle_test_def
      stub_toolkit_def layer_in_mask_def scaled_node_def idle_def Infinity_def num_ge_def
      js_set_def js_set_length_def z_ray_def)

text \<open>
  C2 at its failing input. The same model with its only triangle across the ray at
  model-space height 14, met at the model-space distance 20, that is at the world
  distance \<open>20 * 1/2 = 10\<close>, and the maximum distance 5: the hit is not under the cap,
  yet the model is recorded, with the distance \<open>5 * 1/2\<close>. For a model with the scale 1
  and its triangle at the distance 10 the cap works as described: nothing is recorded
  under the cap 5, and the distance 10 is recorded under the cap 20.
\<close>

theorem far_hit_is_recorded_under_cap:
  "num_mul (Fin 20) (Fin (1/2)) = Fin 10 \<and>
   fst (triangle_query 0x40000000 (1/2) (across_axis 14) (Fin 20) (Fin 5)) \<and>
   resultModels (snd (triangle_query 0x40000000 (1/2) (across_axis 14) (Fin 20) (Fin 5))) =
     [Some \<lparr>hit_node = scaled_node 0x40000000 (1/2), hit_distance = Fin (5/2)\<rparr>] \<and>
   resultModels (snd (triangle_query 0x40000000 1 (across_axis 7) (Fin 10) (Fin 5))) = [] \<and>
   resultModels (snd (triangle_query 0x40000000 1 (across_axis 7) (Fin 10) (Fin 20))) =
     [Some \<lparr>hit_node = scaled_node 0x40000000 1, hit_distance = Fin 10\<rparr>]"
  by (simp add: triangle_query_result raycastAllModels_body_def default_model_distance_def
      Let_def test_model_def one_triangle_def one_triangle_narrowphase rayTriangle_test_def
      stub_toolkit_def layer_in_mask_def scaled_node_def idle_def Infinity_def num_ge_def
      js_set_def js_set_length_def z_ray_def)

text \<open>
  C3 at its failing input. A model whose layer has bit 30 and the \<open>IGNORE_RAYCAST\<close> bit
  20, with the world scale 1/2 and its triangle across the ray at the model-space
  distance 6 (world distance 3), queried with the mask \<open>1 << 30\<close>: the model test only
  clears the bit in the mask, the layer still meets the mask in bit 30, and the model is
  recorded. (The UI test reads the bit on the node: by the lemma that follows, a UI node
  in the same layer is not recorded, one in the layer \<open>1 << 30\<close> is.)
\<close>

theorem ignore_raycast_model_is_recorded:
  "layer (scaled_node 0x40100000 (1/2)) AND
     IGNORE_RAYCAST (stub_toolkit (Fin 2) (Fin 6) (Fin (1/2))) \<noteq> 0 \<and>
   fst (triangle_query 0x40100000 (1/2) (across_axis 0) (Fin 6) Infinity) \<and>
   resultModels (snd (triangle_query 0x40100000 (1/2) (across_axis 0) (Fin 6) Infinity)) =
     [Some \<lparr>hit_node = scaled_node 0x40100000 (1/2), hit_distance = Fin 3\<rparr>]"
  by (simp add: triangle_query_result raycastAllModels_body_def default_model_distance_def
      Let_def test_model_def one_triangle_def one_triangle_narrowphase rayTriangle_test_def
      stub_toolkit_def layer_in_mask_def scaled_node_def idle_def Infinity_def num_ge_def
      js_set_def js_set_length_def z_ray_def)

lemma ignore_raycast_ui_node_is_skipped:
  "fst (raycastUI2DNode (stub_toolkit (Fin 2) (Fin 6) (Fin 1)) z_ray (ui_node 0x40100000)
          0x40000000 Infinity idle) = None \<and>
   fst (raycastUI2DNode (stub_toolkit (Fin 2) (Fin 6) (Fin 1)) z_ray (ui_node 0x40000000)
          0x40000000 Infinity idle) =
     Some \<lparr>hit_node = ui_node 0x40000000, hit_distance = Fin 2\<rparr>"
  by (simp add: raycastUI2DNode_def ui_node_def stub_toolkit_def Let_def Infinity_def)

text \<open>
  The part of the mask test that holds on both paths: a model or UI node whose layer
  shares no bit with the mask is skipped, and so is a UI node whose layer carries the
  \<open>IGNORE_RAYCAST\<close> bit.
\<close>

lemma model_outside_mask_is_skipped:
  assumes "layer (model_node m) AND mask' = 0"
  shows "raycastAllModels_body tk worldRay mask' distance m st = st"
proof -
  have "layer (model_node m) AND (mask' AND NOT (IGNORE_RAYCAST tk)) =
        (layer (model_node m) AND mask') AND NOT (IGNORE_RAYCAST tk)"
    by (simp add: and.assoc)
  with assms have "\<not> layer_in_mask tk m mask'" by (simp add: layer_in_mask_def)
  then show ?thesis by (simp add: raycastAllModels_body_def split: option.splits)
qed

lemma ui_node_outside_mask_is_skipped:
  assumes "layer n AND mask' = 0 \<or> layer n AND IGNORE_RAYCAST tk \<noteq> 0"
  shows "raycastUI2DNode tk worldRay n mask' distance st = (None, st)"
  using assms by (auto simp: raycastUI2DNode_def split: option.splits)

end
